theory Spec2Isabelle
  imports Complex_Main "HOL-Library.Multiset"
begin

section \<open>Numbers, dates and strings of the host language\<close>

text \<open>
  The analyzer computes with JavaScript numbers. They are modelled as real numbers:
  rounding error and overflow of the binary floating-point representation are not part
  of the model. The two divisions of the source whose divisor can be zero
  (in \<open>calculateCashFlowHealth\<close>) produce a \<open>number\<close>, which has the infinities and NaN.

  A transaction date is a calendar day, the string \<open>YYYY-MM-DD\<close>. It is modelled by its
  day number (days since 1970-01-01), so that \<open>new Date(d).getTime()\<close> is
  \<open>86400000 * d\<close> milliseconds.
\<close>

datatype number = Finite real | PosInfinity | NegInfinity | NaN

definition js_div :: "real \<Rightarrow> real \<Rightarrow> number" where
  "js_div x y =
     (if y \<noteq> 0 then Finite (x / y)
      else if x > 0 then PosInfinity
      else if x < 0 then NegInfinity
      else NaN)"

fun js_ge :: "number \<Rightarrow> real \<Rightarrow> bool" where
  "js_ge (Finite x) c = (x \<ge> c)"
| "js_ge PosInfinity c = True"
| "js_ge NegInfinity c = False"
| "js_ge NaN c = False"

text \<open>\<open>Math.round\<close>: the nearest integer, a tie going up.\<close>

definition Math_round :: "real \<Rightarrow> int" where
  "Math_round x = \<lfloor>x + 1 / 2\<rfloor>"

text \<open>
  \<open>Math.max(...xs)\<close> and \<open>Math.min(...xs)\<close>. Every call site of the source is guarded by
  a length test, so the empty case (\<open>-Infinity\<close> and \<open>Infinity\<close> in JavaScript) is never
  evaluated; it is given the value 0 here.
\<close>

fun Math_max :: "real list \<Rightarrow> real" where
  "Math_max [] = 0"
| "Math_max (x # xs) = fold max xs x"

fun Math_min :: "real list \<Rightarrow> real" where
  "Math_min [] = 0"
| "Math_min (x # xs) = fold min xs x"

type_synonym date_string = int

definition getTime :: "date_string \<Rightarrow> real" where
  "getTime d = 86400000 * of_int d"

definition msPerDay :: real where
  "msPerDay = 1000 * 60 * 60 * 24"

text \<open>
  \<open>x.toFixed(f)\<close> for \<open>|x| < 10^21\<close>: the decimal digits of the integer nearest to
  \<open>|x| * 10^f\<close> (the larger one in a tie), with a point before the last \<open>f\<close> digits and
  the sign of \<open>x\<close> in front.
\<close>

definition digit_char :: "nat \<Rightarrow> char" where
  "digit_char d = char_of (48 + d)"

fun string_of_nat :: "nat \<Rightarrow> string" where
  "string_of_nat n =
     (if n < 10 then [digit_char n]
      else string_of_nat (n div 10) @ [digit_char (n mod 10)])"

definition toFixed :: "nat \<Rightarrow> real \<Rightarrow> string" where
  "toFixed f x =
     (let s = (if x < 0 then ''-'' else '''');
          n = nat \<lfloor>\<bar>x\<bar> * 10 ^ f + 1 / 2\<rfloor>;
          m = string_of_nat n
      in if f = 0 then s @ m
         else (let m2 = replicate (f + 1 - length m) (CHR ''0'') @ m;
                   k = length m2
               in s @ take (k - f) m2 @ ''.'' @ drop (k - f) m2))"

section \<open>Transactions\<close>

record PersonalFinanceCategory =
  primary :: string
  detailed :: string
  confidence_level :: "string option"

text \<open>
  The fields of a provider transaction that the analyzer, the subscription detector and
  the sanitizer read, and the account fields that the sanitizer has to leave out.
  \<open>recurring\<close> is \<open>None\<close> when the property is absent.
\<close>

record Transaction =
  transaction_id :: string
  account_id :: string
  account_owner :: "string option"
  date :: date_string
  amount :: real
  name :: string
  personal_finance_category :: "PersonalFinanceCategory option"
  recurring :: "bool option"

section \<open>Income detection\<close>

text \<open>
  The cadence labels are string literals in the source: the income path uses
  \<open>'biweekly' | 'monthly' | 'irregular' | 'weekly'\<close>, the subscription path
  \<open>'weekly' | 'monthly' | 'annual' | 'irregular'\<close>. One datatype holds the five literals.
\<close>

datatype Cadence = weekly | biweekly | monthly | annual | irregular

record LastPaycheck =
  paycheck_amount :: real
  paycheck_date :: date_string

record IncomeAnalysis =
  totalIncome :: real
  averageMonthly :: real
  isVariable :: bool
  variability :: real
  pattern :: Cadence
  lastPaycheck :: "LastPaycheck option"
  incomeTransactions :: "Transaction list"

text \<open>The loop that fills \<open>intervals\<close>: one gap for each pair of neighbours.\<close>

fun intervals :: "Transaction list \<Rightarrow> real list" where
  "intervals (a # b # rest) =
     ((getTime (date b) - getTime (date a)) / msPerDay) # intervals (b # rest)"
| "intervals _ = []"

definition detectPaymentPattern :: "Transaction list \<Rightarrow> Cadence" where
  "detectPaymentPattern transactions =
     (if length transactions < 2 then irregular
      else
        (let sorted = sort_key (\<lambda>t. getTime (date t)) transactions;
             ivs = intervals sorted;
             avgInterval = foldl (\<lambda>sum i. sum + i) 0 ivs / of_nat (length ivs)
         in if avgInterval \<ge> 25 \<and> avgInterval \<le> 35 then monthly
            else if avgInterval \<ge> 12 \<and> avgInterval \<le> 16 then biweekly
            else if avgInterval \<ge> 5 \<and> avgInterval \<le> 9 then weekly
            else irregular))"

definition detectIncome :: "Transaction list \<Rightarrow> IncomeAnalysis" where
  "detectIncome transactions =
     (let incomeTxns = filter (\<lambda>t. amount t < 0) transactions
      in if length incomeTxns = 0 then
           \<lparr> totalIncome = 0, averageMonthly = 0, isVariable = False, variability = 0,
             pattern = irregular, lastPaycheck = None, incomeTransactions = [] \<rparr>
         else
           (let total = foldl (\<lambda>sum t. sum + \<bar>amount t\<bar>) 0 incomeTxns;
                dates = map (\<lambda>t. getTime (date t)) incomeTxns;
                dayRange = (Math_max dates - Math_min dates) / msPerDay;
                monthRange = max 1 (dayRange / 30);
                avgMonthly = total / monthRange;
                amounts = map (\<lambda>t. \<bar>amount t\<bar>) incomeTxns;
                mean = foldl (\<lambda>sum a. sum + a) 0 amounts / of_nat (length amounts);
                variance = foldl (\<lambda>sum a. sum + (a - mean) ^ 2) 0 amounts
                             / of_nat (length amounts);
                stdDev = sqrt variance;
                var = (if mean > 0 then stdDev / mean else 0)
            in \<lparr> totalIncome = total, averageMonthly = avgMonthly,
                 isVariable = (var > 2 / 10), variability = var,
                 pattern = detectPaymentPattern incomeTxns,
                 lastPaycheck = Some \<lparr> paycheck_amount = \<bar>amount (hd incomeTxns)\<bar>,
                                       paycheck_date = date (hd incomeTxns) \<rparr>,
                 incomeTransactions = incomeTxns \<rparr>))"

section \<open>Cash flow health\<close>

datatype HealthStatus = healthy | warning | critical

record CashFlowHealth =
  score :: int
  status :: HealthStatus
  message :: string
  incomeToSpendingRatio :: number

text \<open>
  The three blocks of \<open>score += ...\<close> statements, each as the points it adds, and
  the final choice of status and message.
\<close>

definition incomeVsSpendingPoints :: "number \<Rightarrow> int" where
  "incomeVsSpendingPoints ratio =
     (if js_ge ratio (15 / 10) then 40
      else if js_ge ratio (12 / 10) then 30
      else if js_ge ratio 1 then 20
      else if js_ge ratio (8 / 10) then 10
      else 0)"

definition balancePoints :: "number \<Rightarrow> int" where
  "balancePoints balanceToSpending =
     (if js_ge balanceToSpending 2 then 30
      else if js_ge balanceToSpending 1 then 20
      else if js_ge balanceToSpending (5 / 10) then 10
      else 0)"

definition variabilityPoints :: "IncomeAnalysis \<Rightarrow> int" where
  "variabilityPoints income =
     (if \<not> isVariable income then 20
      else if variability income < 3 / 10 then 15
      else if variability income < 5 / 10 then 10
      else 5)"

definition statusOfScore :: "int \<Rightarrow> HealthStatus \<times> string" where
  "statusOfScore sc =
     (if sc \<ge> 75 then
        (healthy, ''Your finances are in good shape. Keep up the good habits!'')
      else if sc \<ge> 50 then
        (warning,
         ''Your cash flow needs attention. Consider building a buffer and reducing expenses.'')
      else
        (critical,
         ''Your finances need immediate attention. Focus on increasing income and reducing expenses.''))"

definition calculateCashFlowHealth :: "IncomeAnalysis \<Rightarrow> real \<Rightarrow> real \<Rightarrow> CashFlowHealth" where
  "calculateCashFlowHealth income spending balance =
     (let monthlyIncome = averageMonthly income;
          times = map (\<lambda>t. getTime (date t)) (incomeTransactions income);
          monthRange = (if length (incomeTransactions income) > 0
                        then (Math_max times - Math_min times) / (msPerDay * 30)
                        else 1);
          monthlySpending = spending / max 1 monthRange;
          ratio = (if monthlyIncome > 0 then js_div monthlyIncome monthlySpending
                   else Finite 0)
      in if balance < 0 then
           \<lparr> score = Math_round (max 0 (min 35 (35 - \<bar>balance\<bar> / 100))),
             status = critical,
             message = ''You're currently in the red with a negative balance of $''
                       @ toFixed 2 \<bar>balance\<bar>
                       @ ''. Focus on reducing spending and increasing income immediately.'',
             incomeToSpendingRatio = ratio \<rparr>
         else
           (let s0 = (50 :: int);
                s1 = s0 + incomeVsSpendingPoints ratio;
                balanceToSpending = js_div balance monthlySpending;
                s2 = s1 + balancePoints balanceToSpending;
                s3 = s2 + variabilityPoints income;
                sc = min 100 (max 0 s3)
            in \<lparr> score = sc, status = fst (statusOfScore sc),
                 message = snd (statusOfScore sc),
                 incomeToSpendingRatio = ratio \<rparr>))"

section \<open>Category mapping\<close>

definition friendly_table :: "(string \<times> string) list" where
  "friendly_table =
     [(''FOOD_RETAIL'', ''Groceries''),
      (''FOOD_AND_DRINK'', ''Food & Drink''),
      (''DINING'', ''Dining''),
      (''ENTERTAINMENT'', ''Entertainment''),
      (''TRANSPORTATION'', ''Transportation''),
      (''GENERAL_MERCHANDISE'', ''Shopping''),
      (''GENERAL_SERVICES'', ''Services''),
      (''RENT_AND_UTILITIES'', ''Bills & Utilities''),
      (''MEDICAL'', ''Healthcare''),
      (''PERSONAL_CARE'', ''Personal Care''),
      (''BANK_FEES'', ''Fees''),
      (''TRANSFER_IN'', ''Income''),
      (''TRANSFER_OUT'', ''Transfers''),
      (''LOAN_PAYMENTS'', ''Loan Payments''),
      (''HOME_IMPROVEMENT'', ''Home & Garden''),
      (''GOVERNMENT_AND_NON_PROFIT'', ''Government & Non-Profit''),
      (''TRAVEL'', ''Travel''),
      (''INCOME'', ''Income'')]"

text \<open>
  \<open>!pfc?.primary\<close> holds when the classification is absent or its primary code is the
  empty string. A code that is not in the table is shown with its underscores replaced by
  spaces. (The table is a plain object in the source; codes that name a property
  inherited from the object prototype are not part of the model.)
\<close>

definition mapPFCToFriendly :: "PersonalFinanceCategory option \<Rightarrow> string" where
  "mapPFCToFriendly pfc =
     (case pfc of
        None \<Rightarrow> ''Other''
      | Some c \<Rightarrow>
          if primary c = [] then ''Other''
          else (case map_of friendly_table (primary c) of
                  Some label \<Rightarrow> label
                | None \<Rightarrow> map (\<lambda>ch. if ch = CHR ''_'' then CHR '' '' else ch) (primary c)))"

definition isSubscriptionCategory :: "PersonalFinanceCategory option \<Rightarrow> bool" where
  "isSubscriptionCategory pfc =
     (case pfc of
        None \<Rightarrow> False
      | Some c \<Rightarrow>
          if primary c = [] then False
          else primary c \<in> set [''ENTERTAINMENT'', ''RENT_AND_UTILITIES'', ''GENERAL_SERVICES''])"

definition isNonSubscriptionCategory :: "PersonalFinanceCategory option \<Rightarrow> bool" where
  "isNonSubscriptionCategory pfc =
     (case pfc of
        None \<Rightarrow> False
      | Some c \<Rightarrow>
          if primary c = [] then False
          else primary c \<in> set [''FOOD_RETAIL'', ''FOOD_AND_DRINK'', ''DINING'',
                                  ''TRANSPORTATION'', ''GENERAL_MERCHANDISE'', ''TRAVEL'',
                                  ''MEDICAL'', ''PERSONAL_CARE''])"

section \<open>Category spending\<close>

datatype Trend = increasing | decreasing | stable

record CategorySpending =
  category :: string
  total :: real
  count :: nat
  average :: real
  percentage :: real
  trend :: Trend
  transactions :: "Transaction list"

text \<open>
  A \<open>Map<string, Transaction[]>\<close> iterates in the order in which its keys were first set,
  so it is an association list. \<open>map_push m k t\<close> is the loop body
  \<open>if (!m.has(k)) m.set(k, []); m.get(k).push(t)\<close>.
\<close>

fun map_push :: "(string \<times> Transaction list) list \<Rightarrow> string \<Rightarrow> Transaction
                   \<Rightarrow> (string \<times> Transaction list) list" where
  "map_push [] k t = [(k, [t])]"
| "map_push ((k', ts) # m) k t =
     (if k' = k then (k', ts @ [t]) # m else (k', ts) # map_push m k t)"

definition categorySpendingOf :: "real \<Rightarrow> string \<times> Transaction list \<Rightarrow> CategorySpending" where
  "categorySpendingOf totalSpending entry =
     (let txns = snd entry;
          tot = foldl (\<lambda>sum t. sum + amount t) 0 txns;
          cnt = length txns
      in \<lparr> category = fst entry, total = tot, count = cnt, average = tot / of_nat cnt,
           percentage = (if totalSpending > 0 then (tot / totalSpending) * 100 else 0),
           trend = stable, transactions = txns \<rparr>)"

text \<open>
  \<open>Array.prototype.sort\<close> is stable; with the comparator \<open>b.total - a.total\<close> it sorts by
  descending total, which is the stable insertion sort on the negated total.
\<close>

definition analyzeCategorySpending :: "Transaction list \<Rightarrow> CategorySpending list" where
  "analyzeCategorySpending txs =
     (let spendingTxns = filter (\<lambda>t. amount t > 0) txs;
          categoryMap = fold (\<lambda>txn m. map_push m (mapPFCToFriendly (personal_finance_category txn)) txn)
                          spendingTxns [];
          totalSpending = foldl (\<lambda>sum t. sum + amount t) 0 spendingTxns;
          categories = map (categorySpendingOf totalSpending) categoryMap
      in sort_key (\<lambda>c. - total c) categories)"

section \<open>Insights\<close>

datatype InsightType = high_spending | subscription | cash_flow | positive | goal

datatype Severity = sev_info | sev_warning | sev_critical

record SpendingInsight =
  insight_type :: InsightType
  title :: string
  description :: string
  impact :: string
  actionable :: "string list"
  severity :: Severity

text \<open>
  \<open>generateInsights\<close> reads the clock: \<open>Date.now()\<close> is the parameter \<open>now\<close>, in
  milliseconds since the epoch. Each of its three rules appends at most one insight; the
  rules are the three lists below, concatenated in the order of the source. The savings
  rate divides by the total income, which is positive whenever the average monthly income
  is, for every income analysis that \<open>detectIncome\<close> returns.
\<close>

definition highSpendingInsight :: "CategorySpending list \<Rightarrow> SpendingInsight list" where
  "highSpendingInsight categories =
     (case categories of
        [] \<Rightarrow> []
      | topCategory # _ \<Rightarrow>
          if percentage topCategory > 30 then
            [\<lparr> insight_type = high_spending,
               title = ''High '' @ category topCategory @ '' Spending'',
               description = ''You spent $'' @ toFixed 2 (total topCategory) @ '' on ''
                             @ category topCategory @ '' ('' @ toFixed 0 (percentage topCategory)
                             @ ''% of total spending).'',
               impact = ''Reducing this by 20% could save you $''
                        @ toFixed 2 (total topCategory * (2 / 10)) @ '' per month.'',
               actionable = [''Review recent transactions in this category'',
                             ''Look for patterns or unnecessary expenses'',
                             ''Set a monthly budget for this category''],
               severity = sev_warning \<rparr>]
          else [])"

definition cashFlowInsight :: "real \<Rightarrow> IncomeAnalysis \<Rightarrow> real \<Rightarrow> SpendingInsight list" where
  "cashFlowInsight now income balance =
     (case lastPaycheck income of
        None \<Rightarrow> []
      | Some paycheck \<Rightarrow>
          if balance < averageMonthly income * (5 / 10) then
            (let daysSincePaycheck = (now - getTime (paycheck_date paycheck)) / msPerDay
             in if daysSincePaycheck > 7 then
                  [\<lparr> insight_type = cash_flow,
                     title = ''Cash Flow Timing Gap'',
                     description = ''Your balance is low relative to your monthly income pattern.'',
                     impact = ''Building a buffer equal to one paycheck ($''
                              @ toFixed 2 (paycheck_amount paycheck)
                              @ '') would eliminate timing stress.'',
                     actionable = [''Transfer a small amount each week to a buffer account'',
                                   ''Adjust bill due dates if possible'',
                                   ''Consider income-based spending tracking''],
                     severity = sev_warning \<rparr>]
                else [])
          else [])"

definition positiveInsight :: "Transaction list \<Rightarrow> IncomeAnalysis \<Rightarrow> SpendingInsight list" where
  "positiveInsight txs income =
     (if averageMonthly income > 0 then
        (let spendingTotal = foldl (\<lambda>sum t. sum + amount t) 0 (filter (\<lambda>t. amount t > 0) txs);
             savingsRate = ((totalIncome income - spendingTotal) / totalIncome income) * 100
         in if savingsRate > 10 then
              [\<lparr> insight_type = positive,
                 title = ''Great Savings Rate!'',
                 description = ''You're saving '' @ toFixed 0 savingsRate
                               @ ''% of your income. That's excellent!'',
                 impact = ''At this rate, you'll save $''
                          @ toFixed 2 (averageMonthly income * (savingsRate / 100) * 12)
                          @ '' this year.'',
                 actionable = [''Keep up this momentum'',
                               ''Consider automating savings'',
                               ''Set a specific savings goal to stay motivated''],
                 severity = sev_info \<rparr>]
            else [])
      else [])"

definition generateInsights ::
  "real \<Rightarrow> Transaction list \<Rightarrow> IncomeAnalysis \<Rightarrow> CategorySpending list \<Rightarrow> real
     \<Rightarrow> SpendingInsight list" where
  "generateInsights now txs income categories balance =
     highSpendingInsight categories @ cashFlowInsight now income balance
       @ positiveInsight txs income"

section \<open>The main analysis\<close>

record AccountBase =
  acc_account_id :: string
  acc_mask :: "string option"
  acc_current_balance :: "real option"

record Spending =
  spending_total :: real
  byCategory :: "CategorySpending list"
  topCategories :: "CategorySpending list"
  dailyAverage :: real

record Balance =
  current :: real
  balance_trend :: Trend

record FinancialAnalysis =
  income :: IncomeAnalysis
  spending :: Spending
  balance :: Balance
  cashFlowHealth :: CashFlowHealth
  insights :: "SpendingInsight list"
  savingsRate :: real

definition analyzeFinances :: "real \<Rightarrow> Transaction list \<Rightarrow> AccountBase list \<Rightarrow> FinancialAnalysis" where
  "analyzeFinances now txs accounts =
     (let inc = detectIncome txs;
          categories = analyzeCategorySpending txs;
          spendingTotal = foldl (\<lambda>sum t. sum + amount t) 0 (filter (\<lambda>t. amount t > 0) txs);
          currentBalance = totalIncome inc - spendingTotal;
          health = calculateCashFlowHealth inc spendingTotal currentBalance;
          top = take 7 categories;
          ins = generateInsights now txs inc categories currentBalance;
          rate = (if totalIncome inc > 0
                  then ((totalIncome inc - spendingTotal) / totalIncome inc) * 100
                  else 0);
          dayRange = (if length txs > 0
                      then (getTime (date (hd txs)) - getTime (date (last txs))) / msPerDay
                      else 1);
          daily = spendingTotal / max 1 dayRange
      in \<lparr> income = inc,
           spending = \<lparr> spending_total = spendingTotal, byCategory = categories,
                        topCategories = top, dailyAverage = daily \<rparr>,
           balance = \<lparr> current = currentBalance, balance_trend = stable \<rparr>,
           cashFlowHealth = health,
           insights = ins,
           savingsRate = rate \<rparr>)"

section \<open>Subscription detection\<close>

record SubscriptionPattern =
  merchantName :: string
  sub_amount :: real
  frequency :: Cadence
  transactionIds :: "string list"
  lastCharge :: date_string
  estimatedAnnualCost :: real
  driftScore :: real
  averageAmount :: real
  standardDeviation :: real

subsection \<open>Merchant names\<close>

text \<open>
  Merchant names are strings of ASCII characters. \<open>is_space\<close> is the class \<open>\s\<close>
  on them: tab, line feed, vertical tab, form feed, carriage return and space.
\<close>

definition is_space :: "char \<Rightarrow> bool" where
  "is_space c = (c \<in> set [CHR 0x09, CHR 0x0A, CHR 0x0B, CHR 0x0C, CHR 0x0D, CHR 0x20])"

definition is_lower_or_digit :: "char \<Rightarrow> bool" where
  "is_lower_or_digit c =
     (let n = (of_char c :: nat) in (97 \<le> n \<and> n \<le> 122) \<or> (48 \<le> n \<and> n \<le> 57))"

definition toLowerCase :: "string \<Rightarrow> string" where
  "toLowerCase s =
     map (\<lambda>c. let n = (of_char c :: nat) in if 65 \<le> n \<and> n \<le> 90 then char_of (n + 32) else c) s"

text \<open>\<open>replace(/\s+/g, ' ')\<close>: the flag says that the previous character was a space.\<close>

fun collapse_spaces :: "bool \<Rightarrow> string \<Rightarrow> string" where
  "collapse_spaces in_run [] = []"
| "collapse_spaces in_run (c # cs) =
     (if is_space c then (if in_run then collapse_spaces True cs
                          else CHR '' '' # collapse_spaces True cs)
      else c # collapse_spaces False cs)"

definition trim :: "string \<Rightarrow> string" where
  "trim s = rev (dropWhile is_space (rev (dropWhile is_space s)))"

text \<open>\<open>split(' ')\<close>: the pieces between single spaces; the empty string gives one empty piece.\<close>

fun split_space :: "string \<Rightarrow> string list" where
  "split_space [] = [[]]"
| "split_space (c # cs) =
     (if c = CHR '' '' then [] # split_space cs
      else (case split_space cs of
              w # ws \<Rightarrow> (c # w) # ws
            | [] \<Rightarrow> [[c]]))"

fun join_space :: "string list \<Rightarrow> string" where
  "join_space [] = []"
| "join_space [w] = w"
| "join_space (w # ws) = w @ '' '' @ join_space ws"

definition normalizeMerchantName :: "string \<Rightarrow> string" where
  "normalizeMerchantName nm =
     join_space (take 2 (split_space (trim (collapse_spaces False
       (filter (\<lambda>c. is_lower_or_digit c \<or> is_space c) (toLowerCase nm))))))"

fun starts_with :: "string \<Rightarrow> string \<Rightarrow> bool" where
  "starts_with s [] = True"
| "starts_with [] (p # ps) = False"
| "starts_with (c # cs) (p # ps) = (c = p \<and> starts_with cs ps)"

text \<open>\<open>s.includes(sub)\<close>: \<open>sub\<close> occurs in \<open>s\<close> as a contiguous piece.\<close>

fun string_includes :: "string \<Rightarrow> string \<Rightarrow> bool" where
  "string_includes [] sub = (sub = [])"
| "string_includes (c # cs) sub = (starts_with (c # cs) sub \<or> string_includes cs sub)"

definition nonSubscriptionMerchants :: "string list" where
  "nonSubscriptionMerchants =
     [''mcdonalds'', ''starbucks'', ''dunkin'', ''chipotle'', ''subway'',
      ''walmart'', ''target'', ''costco'', ''amazon'', ''uber'', ''lyft'',
      ''shell'', ''chevron'', ''exxon'', ''bp'', ''7 eleven'', ''cvs'', ''walgreens'']"

subsection \<open>Frequency, statistics, annual cost\<close>

record FrequencyPattern =
  pattern_frequency :: Cadence
  pattern_averageAmount :: real

text \<open>The gaps of the subscription path are rounded to whole days.\<close>

fun rounded_intervals :: "Transaction list \<Rightarrow> real list" where
  "rounded_intervals (a # b # rest) =
     of_int (Math_round ((getTime (date b) - getTime (date a)) / msPerDay))
       # rounded_intervals (b # rest)"
| "rounded_intervals _ = []"

definition detectFrequencyPattern :: "Transaction list \<Rightarrow> FrequencyPattern" where
  "detectFrequencyPattern txs =
     (if length txs < 2 then \<lparr> pattern_frequency = irregular, pattern_averageAmount = 0 \<rparr>
      else
        (let sorted = sort_key (\<lambda>t. getTime (date t)) txs;
             ivs = rounded_intervals sorted;
             avgInterval = foldl (\<lambda>sum v. sum + v) 0 ivs / of_nat (length ivs);
             amounts = map amount sorted;
             avgAmount = foldl (\<lambda>sum v. sum + v) 0 amounts / of_nat (length amounts);
             freq = (if avgInterval \<ge> 340 \<and> avgInterval \<le> 390 then annual
                     else if avgInterval \<ge> 25 \<and> avgInterval \<le> 35 then monthly
                     else if avgInterval \<ge> 5 \<and> avgInterval \<le> 9 then weekly
                     else irregular)
         in \<lparr> pattern_frequency = freq, pattern_averageAmount = avgAmount \<rparr>))"

record Statistics =
  mean :: real
  stdDev :: real

definition calculateStatistics :: "real list \<Rightarrow> Statistics" where
  "calculateStatistics values =
     (if length values = 0 then \<lparr> mean = 0, stdDev = 0 \<rparr>
      else
        (let m = foldl (\<lambda>sum v. sum + v) 0 values / of_nat (length values);
             squaredDiffs = map (\<lambda>v. (v - m) ^ 2) values;
             variance = foldl (\<lambda>sum v. sum + v) 0 squaredDiffs / of_nat (length values)
         in \<lparr> mean = m, stdDev = sqrt variance \<rparr>))"

fun calculateAnnualCost :: "real \<Rightarrow> Cadence \<Rightarrow> real" where
  "calculateAnnualCost avg weekly = avg * 52"
| "calculateAnnualCost avg monthly = avg * 12"
| "calculateAnnualCost avg annual = avg"
| "calculateAnnualCost avg irregular = 0"
| "calculateAnnualCost avg biweekly = 0"

subsection \<open>The detector\<close>

text \<open>
  The body of the loop over the merchant groups: \<open>None\<close> where the source continues
  with the next group without pushing a record.
\<close>

definition subscriptionOfGroup :: "string \<times> Transaction list \<Rightarrow> SubscriptionPattern option" where
  "subscriptionOfGroup entry =
     (let merchant = fst entry; txns = snd entry
      in if length txns < 2 then None
         else
           (let sorted = sort_key (\<lambda>t. getTime (date t)) txns;
                pfc = personal_finance_category (hd sorted)
            in if isNonSubscriptionCategory pfc then None
               else if list_ex (\<lambda>nm. string_includes merchant nm) nonSubscriptionMerchants then None
               else
                 (let pat = detectFrequencyPattern sorted;
                      isMonthlyOrAnnual = (pattern_frequency pat = monthly
                                           \<or> pattern_frequency pat = annual);
                      hasRecurringFlag = (recurring (hd sorted) = Some True);
                      inSubscriptionCategory = isSubscriptionCategory pfc
                  in if pattern_frequency pat \<noteq> irregular
                        \<and> (isMonthlyOrAnnual \<or> hasRecurringFlag \<or> inSubscriptionCategory)
                     then
                       (let amounts = map amount sorted;
                            stats = calculateStatistics amounts;
                            drift = (if mean stats > 0 then (stdDev stats / mean stats) * 100
                                     else 0)
                        in if drift > 30 then None
                           else Some
                             \<lparr> merchantName = merchant,
                               sub_amount = mean stats,
                               frequency = pattern_frequency pat,
                               transactionIds = map transaction_id sorted,
                               lastCharge = date (last sorted),
                               estimatedAnnualCost =
                                 calculateAnnualCost (mean stats) (pattern_frequency pat),
                               driftScore = of_int (Math_round (drift * 100)) / 100,
                               averageAmount = mean stats,
                               standardDeviation = stdDev stats \<rparr>)
                     else None)))"

definition merchantGroups :: "Transaction list \<Rightarrow> (string \<times> Transaction list) list" where
  "merchantGroups txs =
     fold (\<lambda>t m. if amount t > 0 then map_push m (normalizeMerchantName (name t)) t else m)
       txs []"

definition detectSubscriptionDrift :: "Transaction list \<Rightarrow> SubscriptionPattern list" where
  "detectSubscriptionDrift txs =
     (if length txs = 0 then []
      else sort_key (\<lambda>s. - driftScore s)
             (List.map_filter subscriptionOfGroup (merchantGroups txs)))"

section \<open>Sanitizing a transaction for the text-generation service\<close>

record SanitizedTransaction =
  sanitized_transaction_id :: string
  sanitized_date :: date_string
  sanitized_amount :: real
  merchant :: string
  sanitized_category :: string

text \<open>\<open>pfc?.primary || 'Other'\<close>: an absent classification and an empty code give \<open>Other\<close>.\<close>

definition sanitizeForAI :: "Transaction \<Rightarrow> SanitizedTransaction" where
  "sanitizeForAI t =
     \<lparr> sanitized_transaction_id = transaction_id t,
       sanitized_date = date t,
       sanitized_amount = amount t,
       merchant = name t,
       sanitized_category =
         (case personal_finance_category t of
            None \<Rightarrow> ''Other''
          | Some c \<Rightarrow> if primary c = [] then ''Other'' else primary c) \<rparr>"

section \<open>Notions of the specification\<close>

text \<open>
  The average of the consecutive day-gaps of the transactions sorted by date, as the
  specification words the input of the cadence classification.
\<close>

fun gaps :: "int list \<Rightarrow> int list" where
  "gaps (a # b # rest) = (b - a) # gaps (b # rest)"
| "gaps _ = []"

definition average_gap :: "Transaction list \<Rightarrow> real" where
  "average_gap txs =
     (let g = gaps (map date (sort_key date txs))
      in of_int (sum_list g) / of_nat (length g))"

text \<open>
  The distinct elements of a list in the order of their first occurrence: the order in
  which the keys of a \<open>Map\<close> are first set.
\<close>

fun first_seen :: "'a list \<Rightarrow> 'a list" where
  "first_seen [] = []"
| "first_seen (x # xs) = x # filter (\<lambda>y. y \<noteq> x) (first_seen xs)"

text \<open>The friendly category of a transaction.\<close>

definition category_label :: "Transaction \<Rightarrow> string" where
  "category_label t = mapPFCToFriendly (personal_finance_category t)"

text \<open>The category records before the final sort, one for each label in first-seen order.\<close>

definition category_groups :: "Transaction list \<Rightarrow> CategorySpending list" where
  "category_groups txs =
     map (\<lambda>k. categorySpendingOf (\<Sum>t\<leftarrow>filter (\<lambda>t. 0 < amount t) txs. amount t)
                 (k, filter (\<lambda>t. 0 < amount t \<and> category_label t = k) txs))
       (first_seen (map category_label (filter (\<lambda>t. 0 < amount t) txs)))"

text \<open>
  The drift score of a list of charge amounts: the standard deviation divided by the
  mean, times 100, and 0 when the mean is 0.
\<close>

definition drift_score :: "real list \<Rightarrow> real" where
  "drift_score amounts =
     (let n = of_nat (length amounts);
          m = sum_list amounts / n;
          sd = sqrt ((\<Sum>a\<leftarrow>amounts. (a - m) ^ 2) / n)
      in if m = 0 then 0 else sd / m * 100)"

section \<open>Example inputs\<close>

definition example_txn ::
  "string \<Rightarrow> date_string \<Rightarrow> real \<Rightarrow> string \<Rightarrow> string \<Rightarrow> Transaction" where
  "example_txn i d a n c =
     \<lparr> transaction_id = i, account_id = ''acct-1'', account_owner = Some ''Ada'',
       date = d, amount = a, name = n,
       personal_finance_category =
         (if c = [] then None
          else Some \<lparr> primary = c, detailed = c, confidence_level = None \<rparr>),
       recurring = None \<rparr>"

definition no_income :: IncomeAnalysis where
  "no_income =
     \<lparr> totalIncome = 0, averageMonthly = 0, isVariable = False, variability = 0,
       pattern = irregular, lastPaycheck = None, incomeTransactions = [] \<rparr>"

text \<open>Two paychecks 31 days apart and one restaurant bill.\<close>

definition paychecks_and_dinner :: "Transaction list" where
  "paychecks_and_dinner =
     [example_txn ''t1'' 19723 (- 2000) ''Employer'' ''INCOME'',
      example_txn ''t2'' 19754 (- 2000) ''Employer'' ''INCOME'',
      example_txn ''t3'' 19737 500 ''Trattoria'' ''DINING'']"

definition one_paycheck :: "Transaction list" where
  "one_paycheck =
     [example_txn ''t1'' 19723 (- 1000) ''Employer'' ''INCOME'',
      example_txn ''t2'' 19730 900 ''Landlord'' ''RENT_AND_UTILITIES'']"

definition two_charges :: "int \<Rightarrow> Transaction list" where
  "two_charges gap =
     [example_txn ''c2'' (19723 + gap) 15 ''Netflix.com'' ''ENTERTAINMENT'',
      example_txn ''c1'' 19723 15 ''NETFLIX.COM'' ''ENTERTAINMENT'']"

text \<open>
  Two restaurant bills, a rent payment, a paycheck, a cash withdrawal without a
  classification and a voided charge of amount zero.
\<close>

definition mixed_spending :: "Transaction list" where
  "mixed_spending =
     [example_txn ''s1'' 19725 300 ''Trattoria'' ''DINING'',
      example_txn ''s2'' 19726 900 ''Landlord'' ''RENT_AND_UTILITIES'',
      example_txn ''s3'' 19727 200 ''Bistro'' ''DINING'',
      example_txn ''s4'' 19728 (- 1000) ''Employer'' ''INCOME'',
      example_txn ''s5'' 19729 500 ''Cash'' [],
      example_txn ''s6'' 19730 0 ''Voided'' ''DINING'']"

section \<open>Auxiliary facts\<close>

lemma foldl_add_sum_list:
  "foldl (\<lambda>s x. s + f x) a xs = a + sum_list (map f xs)"
  for a :: real
  by (induction xs arbitrary: a) simp_all

lemma Math_max_eq_Max: "xs \<noteq> [] \<Longrightarrow> Math_max xs = Max (set xs)"
proof (cases xs)
  case (Cons a list)
  then show ?thesis using Max.set_eq_fold [of a list] by simp
qed simp

lemma Math_min_eq_Min: "xs \<noteq> [] \<Longrightarrow> Math_min xs = Min (set xs)"
proof (cases xs)
  case (Cons a list)
  then show ?thesis using Min.set_eq_fold [of a list] by simp
qed simp

lemma mono_getTime: "mono getTime"
  by (rule monoI) (simp add: getTime_def)

lemma Math_max_getTime:
  assumes "ts \<noteq> []"
  shows "Math_max (map (\<lambda>t. getTime (date t)) ts) = getTime (Max (date ` set ts))"
proof -
  have "Math_max (map (\<lambda>t. getTime (date t)) ts) = Max (getTime ` date ` set ts)"
    using assms by (simp add: Math_max_eq_Max image_image)
  also have "\<dots> = getTime (Max (date ` set ts))"
    using assms by (simp add: mono_Max_commute [OF mono_getTime])
  finally show ?thesis .
qed

lemma Math_min_getTime:
  assumes "ts \<noteq> []"
  shows "Math_min (map (\<lambda>t. getTime (date t)) ts) = getTime (Min (date ` set ts))"
proof -
  have "Math_min (map (\<lambda>t. getTime (date t)) ts) = Min (getTime ` date ` set ts)"
    using assms by (simp add: Math_min_eq_Min image_image)
  also have "\<dots> = getTime (Min (date ` set ts))"
    using assms by (simp add: mono_Min_commute [OF mono_getTime])
  finally show ?thesis .
qed

lemma getTime_diff_days: "(getTime a - getTime b) / msPerDay = of_int (a - b)"
  by (simp add: getTime_def msPerDay_def)

lemma getTime_diff_months:
  "(getTime a - getTime b) / (msPerDay * 30) = of_int (a - b) / 30"
  by (simp add: getTime_def msPerDay_def)

lemma Math_round_of_int: "Math_round (of_int k) = k"
  by (simp add: Math_round_def)

lemma sum_list_of_int: "sum_list (map of_int xs) = (of_int (sum_list xs) :: real)"
  by (induction xs) simp_all

section \<open>Cash flow health\<close>

lemma Math_round_clamp_bounds:
  "0 \<le> Math_round (max 0 (min 35 x)) \<and> Math_round (max 0 (min 35 x)) \<le> 35"
  unfolding Math_round_def by (simp add: le_floor_iff floor_le_iff max_def min_def)

text \<open>
  Claim C2. Whenever the balance passed to the scorer is strictly negative, the status is
  \<open>critical\<close> and the score is \<open>35 - |balance| / 100\<close> clamped to the range from 0 to 35
  and rounded to an integer; so the score is at most 35, whatever the income analysis and
  the spending total are.
\<close>

theorem cash_flow_negative_balance_critical:
  assumes "bal < 0"
  shows "status (calculateCashFlowHealth inc sp bal) = critical
       \<and> score (calculateCashFlowHealth inc sp bal)
           = Math_round (max 0 (min 35 (35 - \<bar>bal\<bar> / 100)))
       \<and> 0 \<le> score (calculateCashFlowHealth inc sp bal)
       \<and> score (calculateCashFlowHealth inc sp bal) \<le> 35"
  using assms Math_round_clamp_bounds [of "35 - \<bar>bal\<bar> / 100"]
  by (simp add: calculateCashFlowHealth_def Let_def split del: if_split)

theorem cash_flow_negative_balance_critical_witness:
  "(- 1000 :: real) < 0
   \<and> status (calculateCashFlowHealth no_income 1000 (- 1000)) = critical
   \<and> score (calculateCashFlowHealth no_income 1000 (- 1000)) = 25"
  using cash_flow_negative_balance_critical [of "- 1000" no_income 1000]
  by (simp add: Math_round_def)

lemma incomeVsSpendingPoints_nonneg: "0 \<le> incomeVsSpendingPoints r"
  by (simp add: incomeVsSpendingPoints_def)

lemma balancePoints_nonneg: "0 \<le> balancePoints r"
  by (simp add: balancePoints_def)

lemma variabilityPoints_ge: "5 \<le> variabilityPoints i"
  by (simp add: variabilityPoints_def)

lemma statusOfScore_critical: "fst (statusOfScore sc) = critical \<longleftrightarrow> sc < 50"
  by (simp add: statusOfScore_def)

lemma points_sum_ge:
  "5 \<le> incomeVsSpendingPoints r + balancePoints b + variabilityPoints i"
  using incomeVsSpendingPoints_nonneg [of r] balancePoints_nonneg [of b]
    variabilityPoints_ge [of i] by linarith

lemma clamped_score_ge:
  "55 \<le> max 0 (50 + incomeVsSpendingPoints r + balancePoints b + variabilityPoints i)"
  using points_sum_ge [of r b i] by simp

lemma score_nonneg_balance:
  assumes "\<not> bal < 0"
  shows "55 \<le> score (calculateCashFlowHealth inc sp bal)"
  using assms
  by (simp add: calculateCashFlowHealth_def Let_def clamped_score_ge split del: if_split)

lemma status_nonneg_balance:
  assumes "\<not> bal < 0"
  shows "status (calculateCashFlowHealth inc sp bal)
           = fst (statusOfScore (score (calculateCashFlowHealth inc sp bal)))"
  using assms
  by (simp add: calculateCashFlowHealth_def Let_def split del: if_split)

text \<open>
  Claim C10. Whenever the balance passed to the scorer is not negative, the score is at
  least 55 (the base of 50 and at least 5 points for income stability) and the status is
  \<open>healthy\<close> or \<open>warning\<close>; hence the status is \<open>critical\<close> exactly when the balance is
  strictly negative.
\<close>

theorem cash_flow_critical_iff_negative:
  "(0 \<le> bal \<longrightarrow> 55 \<le> score (calculateCashFlowHealth inc sp bal)
                \<and> status (calculateCashFlowHealth inc sp bal) \<in> {healthy, warning})
   \<and> (status (calculateCashFlowHealth inc sp bal) = critical \<longleftrightarrow> bal < 0)"
proof (cases "bal < 0")
  case True
  then show ?thesis
    by (simp add: calculateCashFlowHealth_def Let_def split del: if_split)
next
  case False
  let ?h = "calculateCashFlowHealth inc sp bal"
  have ge: "55 \<le> score ?h"
    by (rule score_nonneg_balance [OF False])
  have "fst (statusOfScore (score ?h)) \<noteq> critical"
    using ge statusOfScore_critical [of "score ?h"] by simp
  then have nc: "status ?h \<noteq> critical"
    by (simp add: status_nonneg_balance [OF False])
  then have "status ?h \<in> {healthy, warning}"
    by (cases "status ?h") simp_all
  with ge nc False show ?thesis by simp
qed

theorem cash_flow_critical_iff_negative_witness:
  "(0 :: real) \<le> 0
   \<and> 55 \<le> score (calculateCashFlowHealth no_income 0 0)
   \<and> score (calculateCashFlowHealth no_income 0 0) = 70
   \<and> status (calculateCashFlowHealth no_income 0 0) = warning
   \<and> status (calculateCashFlowHealth no_income 1 (- 1)) = critical"
proof -
  have v: "score (calculateCashFlowHealth no_income 0 0) = 70"
    "status (calculateCashFlowHealth no_income 0 0) = warning"
    by (simp_all add: calculateCashFlowHealth_def no_income_def Let_def js_div_def
      incomeVsSpendingPoints_def balancePoints_def variabilityPoints_def statusOfScore_def)
  show ?thesis
    using cash_flow_critical_iff_negative [of 0 no_income 0]
      cash_flow_critical_iff_negative [of "- 1" no_income 1] v
    by simp
qed

section \<open>Income detection\<close>

lemma detectIncome_nonempty:
  assumes "filter (\<lambda>t. amount t < 0) txs \<noteq> []"
  shows "averageMonthly (detectIncome txs)
         = totalIncome (detectIncome txs)
           / max 1 (of_int (Max (date ` set (filter (\<lambda>t. amount t < 0) txs))
                            - Min (date ` set (filter (\<lambda>t. amount t < 0) txs))) / 30)"
  using assms
  by (simp add: detectIncome_def Let_def Math_max_getTime Math_min_getTime
      getTime_diff_days getTime_diff_months del: of_int_diff split del: if_split)

lemma detectIncome_totalIncome:
  "totalIncome (detectIncome txs)
     = (\<Sum>t\<leftarrow>filter (\<lambda>t. amount t < 0) txs. \<bar>amount t\<bar>)"
  by (simp add: detectIncome_def Let_def foldl_add_sum_list)

text \<open>
  Claim C8. With at least one transaction of strictly negative amount, the average
  monthly income is the total income divided by \<open>max 1 (dayRange / 30)\<close>, where \<open>dayRange\<close>
  is the number of days from the earliest to the latest income date; with exactly one
  income transaction it equals the total income; with none, the result is the neutral
  record (total 0, average 0, cadence irregular, variability 0).
\<close>

theorem detect_income_average_monthly:
  "(filter (\<lambda>t. amount t < 0) txs \<noteq> [] \<longrightarrow>
      averageMonthly (detectIncome txs)
        = totalIncome (detectIncome txs)
          / max 1 (of_int (Max (date ` set (filter (\<lambda>t. amount t < 0) txs))
                           - Min (date ` set (filter (\<lambda>t. amount t < 0) txs))) / 30))
   \<and> (length (filter (\<lambda>t. amount t < 0) txs) = 1 \<longrightarrow>
        averageMonthly (detectIncome txs) = totalIncome (detectIncome txs))
   \<and> (filter (\<lambda>t. amount t < 0) txs = [] \<longrightarrow>
        detectIncome txs
          = \<lparr> totalIncome = 0, averageMonthly = 0, isVariable = False, variability = 0,
              pattern = irregular, lastPaycheck = None, incomeTransactions = [] \<rparr>)"
proof (intro conjI impI)
  assume "filter (\<lambda>t. amount t < 0) txs \<noteq> []"
  then show "averageMonthly (detectIncome txs)
        = totalIncome (detectIncome txs)
          / max 1 (of_int (Max (date ` set (filter (\<lambda>t. amount t < 0) txs))
                           - Min (date ` set (filter (\<lambda>t. amount t < 0) txs))) / 30)"
    by (rule detectIncome_nonempty)
next
  assume one: "length (filter (\<lambda>t. amount t < 0) txs) = 1"
  then obtain t where t: "filter (\<lambda>t. amount t < 0) txs = [t]"
    by (cases "filter (\<lambda>t. amount t < 0) txs") auto
  then have ne: "filter (\<lambda>t. amount t < 0) txs \<noteq> []" by simp
  show "averageMonthly (detectIncome txs) = totalIncome (detectIncome txs)"
    unfolding detectIncome_nonempty [OF ne] by (simp add: t)
next
  assume "filter (\<lambda>t. amount t < 0) txs = []"
  then show "detectIncome txs
          = \<lparr> totalIncome = 0, averageMonthly = 0, isVariable = False, variability = 0,
              pattern = irregular, lastPaycheck = None, incomeTransactions = [] \<rparr>"
    by (simp add: detectIncome_def)
qed

theorem detect_income_average_monthly_witness:
  "filter (\<lambda>t. amount t < 0) paychecks_and_dinner \<noteq> []
   \<and> totalIncome (detectIncome paychecks_and_dinner) = 4000
   \<and> averageMonthly (detectIncome paychecks_and_dinner) = 120000 / 31
   \<and> length (filter (\<lambda>t. amount t < 0) one_paycheck) = 1
   \<and> averageMonthly (detectIncome one_paycheck) = 1000
   \<and> filter (\<lambda>t. amount t < 0) [example_txn ''t3'' 19737 500 ''Trattoria'' ''DINING''] = []
   \<and> detectIncome [example_txn ''t3'' 19737 500 ''Trattoria'' ''DINING''] = no_income"
proof -
  have f2: "filter (\<lambda>t. amount t < 0) paychecks_and_dinner
              = [example_txn ''t1'' 19723 (- 2000) ''Employer'' ''INCOME'',
                 example_txn ''t2'' 19754 (- 2000) ''Employer'' ''INCOME'']"
    by (simp add: paychecks_and_dinner_def example_txn_def)
  have f1: "filter (\<lambda>t. amount t < 0) one_paycheck
              = [example_txn ''t1'' 19723 (- 1000) ''Employer'' ''INCOME'']"
    by (simp add: one_paycheck_def example_txn_def)
  have f0: "filter (\<lambda>t. amount t < 0) [example_txn ''t3'' 19737 500 ''Trattoria'' ''DINING''] = []"
    by (simp add: example_txn_def)
  have t2: "totalIncome (detectIncome paychecks_and_dinner) = 4000"
    by (simp add: detectIncome_totalIncome f2) (simp add: example_txn_def)
  have t1: "totalIncome (detectIncome one_paycheck) = 1000"
    by (simp add: detectIncome_totalIncome f1) (simp add: example_txn_def)
  have d2: "Max (date ` set (filter (\<lambda>t. amount t < 0) paychecks_and_dinner)) = 19754"
    "Min (date ` set (filter (\<lambda>t. amount t < 0) paychecks_and_dinner)) = 19723"
    by (simp_all add: f2) (simp_all add: example_txn_def)
  have ne2: "filter (\<lambda>t. amount t < 0) paychecks_and_dinner \<noteq> []"
    by (simp add: f2)
  have l1: "length (filter (\<lambda>t. amount t < 0) one_paycheck) = 1"
    by (simp add: f1)
  have a2: "averageMonthly (detectIncome paychecks_and_dinner) = 120000 / 31"
    using detect_income_average_monthly [of paychecks_and_dinner] ne2
    unfolding d2 t2 by simp
  have a1: "averageMonthly (detectIncome one_paycheck) = 1000"
    using detect_income_average_monthly [of one_paycheck] l1 t1 by simp
  have a0: "detectIncome [example_txn ''t3'' 19737 500 ''Trattoria'' ''DINING''] = no_income"
    using detect_income_average_monthly [of "[example_txn ''t3'' 19737 500 ''Trattoria'' ''DINING'']"]
      f0
    unfolding no_income_def by blast
  from ne2 t2 a2 l1 a1 f0 a0 show ?thesis by blast
qed

section \<open>Cadence classification\<close>

lemma insort_key_getTime:
  "insort_key (\<lambda>t. getTime (date t)) x xs = insort_key date x xs"
  by (induction xs) (simp_all add: getTime_def)

lemma sort_key_getTime: "sort_key (\<lambda>t. getTime (date t)) xs = sort_key date xs"
  by (induction xs) (simp_all add: insort_key_getTime)

lemma intervals_gaps: "intervals ts = map of_int (gaps (map date ts))"
  by (induction ts rule: intervals.induct) (simp_all add: getTime_diff_days)

lemma rounded_intervals_gaps: "rounded_intervals ts = map of_int (gaps (map date ts))"
  by (induction ts rule: rounded_intervals.induct)
     (simp_all add: getTime_diff_days Math_round_of_int del: of_int_diff)

lemma avgInterval_income:
  "foldl (\<lambda>sum i. sum + i) 0 (intervals (sort_key (\<lambda>t. getTime (date t)) txs))
     / of_nat (length (intervals (sort_key (\<lambda>t. getTime (date t)) txs)))
   = average_gap txs"
  by (simp add: sort_key_getTime intervals_gaps average_gap_def Let_def
      foldl_add_sum_list [where f = "\<lambda>x. x", simplified] sum_list_of_int)

lemma avgInterval_subscription:
  "foldl (\<lambda>sum i. sum + i) 0 (rounded_intervals (sort_key (\<lambda>t. getTime (date t)) txs))
     / of_nat (length (rounded_intervals (sort_key (\<lambda>t. getTime (date t)) txs)))
   = average_gap txs"
  by (simp add: sort_key_getTime rounded_intervals_gaps average_gap_def Let_def
      foldl_add_sum_list [where f = "\<lambda>x. x", simplified] sum_list_of_int)

lemma detectPaymentPattern_bands:
  "detectPaymentPattern txs =
     (if length txs < 2 then irregular
      else if 25 \<le> average_gap txs \<and> average_gap txs \<le> 35 then monthly
      else if 12 \<le> average_gap txs \<and> average_gap txs \<le> 16 then biweekly
      else if 5 \<le> average_gap txs \<and> average_gap txs \<le> 9 then weekly
      else irregular)"
  by (simp only: detectPaymentPattern_def Let_def avgInterval_income)

lemma detectFrequencyPattern_bands:
  "pattern_frequency (detectFrequencyPattern txs) =
     (if length txs < 2 then irregular
      else if 340 \<le> average_gap txs \<and> average_gap txs \<le> 390 then annual
      else if 25 \<le> average_gap txs \<and> average_gap txs \<le> 35 then monthly
      else if 5 \<le> average_gap txs \<and> average_gap txs \<le> 9 then weekly
      else irregular)"
  by (simp only: detectFrequencyPattern_def Let_def avgInterval_subscription
      FrequencyPattern.simps if_distrib [of pattern_frequency] if_cancel)

text \<open>
  Claim C7. The cadence depends on the transactions only through the average of the
  consecutive day-gaps of the date-sorted list. Fewer than two transactions are always
  irregular. Otherwise, on the income path an average in [25,35] is monthly, in [12,16]
  biweekly, in [5,9] weekly and anything else irregular; on the subscription path an
  average in [340,390] is annual, in [25,35] monthly, in [5,9] weekly and anything else
  irregular. An average of exactly 30 days is monthly, of exactly 14 days biweekly
  (income path), of exactly 365 days annual (subscription path).
\<close>

theorem cadence_bands:
  "(length txs < 2 \<longrightarrow>
      detectPaymentPattern txs = irregular
      \<and> pattern_frequency (detectFrequencyPattern txs) = irregular)
   \<and> (2 \<le> length txs \<longrightarrow>
        detectPaymentPattern txs =
          (if 25 \<le> average_gap txs \<and> average_gap txs \<le> 35 then monthly
           else if 12 \<le> average_gap txs \<and> average_gap txs \<le> 16 then biweekly
           else if 5 \<le> average_gap txs \<and> average_gap txs \<le> 9 then weekly
           else irregular)
        \<and> pattern_frequency (detectFrequencyPattern txs) =
          (if 340 \<le> average_gap txs \<and> average_gap txs \<le> 390 then annual
           else if 25 \<le> average_gap txs \<and> average_gap txs \<le> 35 then monthly
           else if 5 \<le> average_gap txs \<and> average_gap txs \<le> 9 then weekly
           else irregular)
        \<and> (average_gap txs = 30 \<longrightarrow> detectPaymentPattern txs = monthly
               \<and> pattern_frequency (detectFrequencyPattern txs) = monthly)
        \<and> (average_gap txs = 14 \<longrightarrow> detectPaymentPattern txs = biweekly)
        \<and> (average_gap txs = 365 \<longrightarrow>
               pattern_frequency (detectFrequencyPattern txs) = annual))"
  by (simp add: detectPaymentPattern_bands detectFrequencyPattern_bands)

lemma average_gap_two_charges: "0 \<le> g \<Longrightarrow> average_gap (two_charges g) = of_int g"
  by (simp add: average_gap_def two_charges_def example_txn_def)

theorem cadence_bands_witness:
  "length ([] :: Transaction list) < 2
   \<and> detectPaymentPattern [] = irregular
   \<and> 2 \<le> length (two_charges 30) \<and> average_gap (two_charges 30) = 30
   \<and> detectPaymentPattern (two_charges 30) = monthly
   \<and> pattern_frequency (detectFrequencyPattern (two_charges 30)) = monthly
   \<and> 2 \<le> length (two_charges 14) \<and> average_gap (two_charges 14) = 14
   \<and> detectPaymentPattern (two_charges 14) = biweekly
   \<and> pattern_frequency (detectFrequencyPattern (two_charges 14)) = irregular
   \<and> 2 \<le> length (two_charges 365) \<and> average_gap (two_charges 365) = 365
   \<and> pattern_frequency (detectFrequencyPattern (two_charges 365)) = annual
   \<and> detectPaymentPattern (two_charges 365) = irregular"
proof -
  have l: "length (two_charges g) = 2" for g
    by (simp add: two_charges_def)
  show ?thesis
    using cadence_bands [of "[]"] cadence_bands [of "two_charges 30"]
      cadence_bands [of "two_charges 14"] cadence_bands [of "two_charges 365"]
    by (simp add: l average_gap_two_charges)
qed

section \<open>Grouping and category spending\<close>

lemma set_first_seen [simp]: "set (first_seen xs) = set xs"
  by (induction xs) auto

lemma distinct_first_seen [simp]: "distinct (first_seen xs)"
  by (induction xs) auto

lemma first_seen_snoc:
  "first_seen (xs @ [k]) = (if k \<in> set xs then first_seen xs else first_seen xs @ [k])"
  by (induction xs) auto

lemma map_push_absent: "k \<notin> fst ` set m \<Longrightarrow> map_push m k t = m @ [(k, [t])]"
  by (induction m) auto

lemma map_push_present:
  "distinct (map fst m) \<Longrightarrow> k \<in> fst ` set m \<Longrightarrow>
   map_push m k t = map (\<lambda>e. if fst e = k then (fst e, snd e @ [t]) else e) m"
proof (induction m)
  case Nil
  then show ?case by simp
next
  case (Cons e m)
  show ?case
  proof (cases "fst e = k")
    case True
    with Cons.prems have "\<forall>e' \<in> set m. fst e' \<noteq> k" by (auto simp: image_iff)
    then have "map (\<lambda>e. if fst e = k then (fst e, snd e @ [t]) else e) m = m"
      by (intro map_idI) auto
    with True show ?thesis by (cases e) simp
  next
    case False
    with Cons.prems have "k \<in> fst ` set m" and "distinct (map fst m)" by auto
    with Cons.IH False show ?thesis by (cases e) simp
  qed
qed

lemma fold_map_push_groups:
  "fold (\<lambda>t m. map_push m (key t) t) xs []
     = map (\<lambda>k. (k, filter (\<lambda>t. key t = k) xs)) (first_seen (map key xs))"
proof (induction xs rule: rev_induct)
  case Nil
  show ?case by simp
next
  case (snoc x xs)
  let ?K = "first_seen (map key xs)"
  let ?m = "map (\<lambda>k. (k, filter (\<lambda>t. key t = k) xs)) ?K"
  have fst_m: "map fst ?m = ?K" by (simp add: comp_def)
  then have dist: "distinct (map fst ?m)" by simp
  have keys: "fst ` set ?m = key ` set xs"
    by (simp add: image_image)
  have step: "fold (\<lambda>t m. map_push m (key t) t) (xs @ [x]) [] = map_push ?m (key x) x"
    using snoc.IH by simp
  show ?case
  proof (cases "key x \<in> key ` set xs")
    case True
    then have K': "first_seen (map key (xs @ [x])) = ?K"
      by (simp add: first_seen_snoc)
    have "map_push ?m (key x) x
            = map (\<lambda>e. if fst e = key x then (fst e, snd e @ [x]) else e) ?m"
      using True keys by (intro map_push_present [OF dist]) simp
    also have "\<dots> = map (\<lambda>k. (k, filter (\<lambda>t. key t = k) (xs @ [x]))) ?K"
      by (auto simp: comp_def)
    finally show ?thesis unfolding step K' .
  next
    case False
    then have K': "first_seen (map key (xs @ [x])) = ?K @ [key x]"
      by (simp add: first_seen_snoc)
    from False have none: "filter (\<lambda>t. key t = key x) xs = []"
      by (auto simp: filter_empty_conv image_iff)
    have same: "?m = map (\<lambda>k. (k, filter (\<lambda>t. key t = k) (xs @ [x]))) ?K"
      using False by (auto simp: image_iff)
    have "map_push ?m (key x) x = ?m @ [(key x, [x])]"
      using False keys by (intro map_push_absent) simp
    also have "\<dots> = map (\<lambda>k. (k, filter (\<lambda>t. key t = k) (xs @ [x]))) (?K @ [key x])"
      using none same by simp
    finally show ?thesis unfolding step K' .
  qed
qed

lemma fold_if_filter:
  "fold (\<lambda>t m. if P t then g t m else m) xs a = fold g (filter P xs) a"
  by (induction xs arbitrary: a) simp_all

lemma sum_list_delta:
  fixes c :: real
  shows "distinct K \<Longrightarrow> (\<Sum>k\<leftarrow>K. if a = k then c else 0) = (if a \<in> set K then c else 0)"
  by (induction K) auto

lemma sum_list_groups:
  fixes f :: "'a \<Rightarrow> real"
  assumes "distinct K" and "key ` set xs \<subseteq> set K"
  shows "(\<Sum>k\<leftarrow>K. \<Sum>t\<leftarrow>filter (\<lambda>t. key t = k) xs. f t) = (\<Sum>t\<leftarrow>xs. f t)"
  using assms(2)
proof (induction xs)
  case Nil
  show ?case by simp
next
  case (Cons x xs)
  have pick: "(\<Sum>k\<leftarrow>K. if key x = k then f x else 0) = f x"
    using assms(1) Cons.prems by (simp add: sum_list_delta)
  have "(\<Sum>k\<leftarrow>K. \<Sum>t\<leftarrow>filter (\<lambda>t. key t = k) (x # xs). f t)
          = (\<Sum>k\<leftarrow>K. (if key x = k then f x else 0) + (\<Sum>t\<leftarrow>filter (\<lambda>t. key t = k) xs. f t))"
    by (rule arg_cong [where f = sum_list]) (rule map_cong, auto)
  also have "\<dots> = (\<Sum>k\<leftarrow>K. if key x = k then f x else 0)
                     + (\<Sum>k\<leftarrow>K. \<Sum>t\<leftarrow>filter (\<lambda>t. key t = k) xs. f t)"
    by (simp add: sum_list_addf)
  also have "\<dots> = f x + (\<Sum>t\<leftarrow>xs. f t)"
    using pick Cons by simp
  finally show ?case by simp
qed


lemma analyzeCategorySpending_groups:
  "analyzeCategorySpending txs = sort_key (\<lambda>c. - total c) (category_groups txs)"
proof -
  have "fold (\<lambda>txn m. map_push m (mapPFCToFriendly (personal_finance_category txn)) txn)
          (filter (\<lambda>t. 0 < amount t) txs) []
        = map (\<lambda>k. (k, filter (\<lambda>t. 0 < amount t \<and> category_label t = k) txs))
            (first_seen (map category_label (filter (\<lambda>t. 0 < amount t) txs)))"
    using fold_map_push_groups [of category_label "filter (\<lambda>t. 0 < amount t) txs"]
    by (simp add: category_label_def [abs_def])
  then show ?thesis
    by (simp add: analyzeCategorySpending_def category_groups_def Let_def
        foldl_add_sum_list comp_def)
qed

lemma category_groups_category:
  "map category (category_groups txs)
     = first_seen (map category_label (filter (\<lambda>t. 0 < amount t) txs))"
  by (simp add: category_groups_def categorySpendingOf_def Let_def comp_def)

lemma category_groups_total:
  "map total (category_groups txs)
     = map (\<lambda>k. \<Sum>t\<leftarrow>filter (\<lambda>t. 0 < amount t \<and> category_label t = k) txs. amount t)
         (first_seen (map category_label (filter (\<lambda>t. 0 < amount t) txs)))"
  by (simp add: category_groups_def categorySpendingOf_def Let_def comp_def foldl_add_sum_list)

lemma sum_list_pos_amounts_nonneg: "0 \<le> (\<Sum>t\<leftarrow>filter (\<lambda>t. 0 < amount t) txs. amount t)"
  by (rule sum_list_nonneg) auto

lemma category_groups_member:
  assumes "c \<in> set (category_groups txs)"
  shows "transactions c = filter (\<lambda>t. 0 < amount t \<and> category_label t = category c) txs
       \<and> transactions c \<noteq> []
       \<and> total c = (\<Sum>t\<leftarrow>transactions c. amount t)
       \<and> count c = length (transactions c)
       \<and> average c = total c / of_nat (count c)
       \<and> percentage c
           = (if (\<Sum>t\<leftarrow>filter (\<lambda>t. 0 < amount t) txs. amount t) = 0 then 0
              else total c / (\<Sum>t\<leftarrow>filter (\<lambda>t. 0 < amount t) txs. amount t) * 100)"
proof -
  let ?G = "\<Sum>t\<leftarrow>filter (\<lambda>t. 0 < amount t) txs. amount t"
  from assms obtain k where k: "k \<in> category_label ` set (filter (\<lambda>t. 0 < amount t) txs)"
    and c: "c = categorySpendingOf ?G (k, filter (\<lambda>t. 0 < amount t \<and> category_label t = k) txs)"
    by (auto simp: category_groups_def)
  from k have ne: "filter (\<lambda>t. 0 < amount t \<and> category_label t = k) txs \<noteq> []"
    by (auto simp: filter_empty_conv)
  have G: "0 < ?G \<longleftrightarrow> ?G \<noteq> 0"
    using sum_list_pos_amounts_nonneg [of txs] by linarith
  show ?thesis
    using ne G by (simp add: c categorySpendingOf_def Let_def foldl_add_sum_list)
qed

lemma category_spending_ties:
  "map category (filter (\<lambda>c. total c = v) (analyzeCategorySpending txs))
     = filter (\<lambda>k. (\<Sum>t\<leftarrow>filter (\<lambda>t. 0 < amount t \<and> category_label t = k) txs. amount t) = v)
         (first_seen (map category_label (filter (\<lambda>t. 0 < amount t) txs)))"
proof -
  have "filter (\<lambda>c. total c = v) (analyzeCategorySpending txs)
          = filter (\<lambda>c. - total c = - v) (sort_key (\<lambda>c. - total c) (category_groups txs))"
    by (simp add: analyzeCategorySpending_groups)
  also have "\<dots> = filter (\<lambda>c. - total c = - v) (category_groups txs)"
    by (rule sort_key_stable)
  finally have "filter (\<lambda>c. total c = v) (analyzeCategorySpending txs)
                  = filter (\<lambda>c. total c = v) (category_groups txs)"
    by simp
  then show ?thesis
    by (simp add: category_groups_def filter_map comp_def categorySpendingOf_def Let_def
        foldl_add_sum_list)
qed

text \<open>
  Claim C9. The category aggregation takes exactly the transactions of strictly positive
  amount; a transaction without a classification gets the label \<open>Other\<close>; there is one
  record for each label that occurs; a record holds the transactions of its label, their
  sum as total, their number as count, total / count as average and
  total / grand total * 100 as percentage (0 when the grand total is 0); the records are
  in descending order of total, and records of equal total are in the order in which
  their labels first occur in the input.
\<close>

theorem category_spending_aggregation:
  "(\<forall>c \<in> set (analyzeCategorySpending txs).
        transactions c = filter (\<lambda>t. 0 < amount t \<and> category_label t = category c) txs
      \<and> transactions c \<noteq> []
      \<and> total c = (\<Sum>t\<leftarrow>transactions c. amount t)
      \<and> count c = length (transactions c)
      \<and> average c = total c / of_nat (count c)
      \<and> percentage c
          = (if (\<Sum>t\<leftarrow>filter (\<lambda>t. 0 < amount t) txs. amount t) = 0 then 0
             else total c / (\<Sum>t\<leftarrow>filter (\<lambda>t. 0 < amount t) txs. amount t) * 100))
   \<and> distinct (map category (analyzeCategorySpending txs))
   \<and> set (map category (analyzeCategorySpending txs))
        = category_label ` {t \<in> set txs. 0 < amount t}
   \<and> sorted_wrt (\<lambda>a b. total b \<le> total a) (analyzeCategorySpending txs)
   \<and> (\<forall>v. map category (filter (\<lambda>c. total c = v) (analyzeCategorySpending txs))
          = filter (\<lambda>k. (\<Sum>t\<leftarrow>filter (\<lambda>t. 0 < amount t \<and> category_label t = k) txs.
                            amount t) = v)
              (first_seen (map category_label (filter (\<lambda>t. 0 < amount t) txs))))
   \<and> (\<forall>t :: Transaction. personal_finance_category t = None \<longrightarrow> category_label t = ''Other'')"
proof (intro conjI ballI allI impI)
  fix c assume "c \<in> set (analyzeCategorySpending txs)"
  then have c: "c \<in> set (category_groups txs)"
    by (simp add: analyzeCategorySpending_groups)
  note m = category_groups_member [OF c]
  from m show "transactions c = filter (\<lambda>t. 0 < amount t \<and> category_label t = category c) txs"
    by blast
  from m show "transactions c \<noteq> []" by blast
  from m show "total c = (\<Sum>t\<leftarrow>transactions c. amount t)" by blast
  from m show "count c = length (transactions c)" by blast
  from m show "average c = total c / of_nat (count c)" by blast
  from m show "percentage c
          = (if (\<Sum>t\<leftarrow>filter (\<lambda>t. 0 < amount t) txs. amount t) = 0 then 0
             else total c / (\<Sum>t\<leftarrow>filter (\<lambda>t. 0 < amount t) txs. amount t) * 100)"
    by blast
next
  have "mset (map category (analyzeCategorySpending txs))
          = mset (first_seen (map category_label (filter (\<lambda>t. 0 < amount t) txs)))"
    by (simp add: analyzeCategorySpending_groups category_groups_category [symmetric])
  then show "distinct (map category (analyzeCategorySpending txs))"
    using distinct_first_seen mset_eq_imp_distinct_iff by blast
next
  show "set (map category (analyzeCategorySpending txs))
          = category_label ` {t \<in> set txs. 0 < amount t}"
    using arg_cong [OF category_groups_category [of txs], of set]
    by (simp add: analyzeCategorySpending_groups)
next
  have "sorted (map (\<lambda>c. - total c) (analyzeCategorySpending txs))"
    by (simp add: analyzeCategorySpending_groups)
  then show "sorted_wrt (\<lambda>a b. total b \<le> total a) (analyzeCategorySpending txs)"
    by (simp add: sorted_map)
next
  fix v
  show "map category (filter (\<lambda>c. total c = v) (analyzeCategorySpending txs))
          = filter (\<lambda>k. (\<Sum>t\<leftarrow>filter (\<lambda>t. 0 < amount t \<and> category_label t = k) txs.
                            amount t) = v)
              (first_seen (map category_label (filter (\<lambda>t. 0 < amount t) txs)))"
    by (rule category_spending_ties)
next
  fix t :: Transaction assume "personal_finance_category t = None"
  then show "category_label t = ''Other''"
    by (simp add: category_label_def mapPFCToFriendly_def)
qed

lemma sum_list_map_sort_key:
  fixes g :: "'a \<Rightarrow> real"
  shows "sum_list (map g (sort_key f xs)) = sum_list (map g xs)"
proof -
  have "sum_mset (mset (map g (sort_key f xs))) = sum_mset (mset (map g xs))"
    by simp
  then show ?thesis unfolding sum_mset_sum_list .
qed

lemma category_totals_sum:
  "(\<Sum>c\<leftarrow>analyzeCategorySpending txs. total c)
     = (\<Sum>t\<leftarrow>filter (\<lambda>t. 0 < amount t) txs. amount t)"
proof -
  let ?sp = "filter (\<lambda>t. 0 < amount t) txs"
  have "(\<Sum>c\<leftarrow>analyzeCategorySpending txs. total c)
          = (\<Sum>c\<leftarrow>category_groups txs. total c)"
    by (simp add: analyzeCategorySpending_groups sum_list_map_sort_key)
  also have "\<dots> = (\<Sum>k\<leftarrow>first_seen (map category_label ?sp).
                        \<Sum>t\<leftarrow>filter (\<lambda>t. category_label t = k) ?sp. amount t)"
    by (simp add: category_groups_total comp_def conj_commute)
  also have "\<dots> = (\<Sum>t\<leftarrow>?sp. amount t)"
    by (rule sum_list_groups) simp_all
  finally show ?thesis .
qed

lemma mixed_categories:
  "map (\<lambda>c. (category c, total c, count c, percentage c)) (analyzeCategorySpending mixed_spending)
     = [(''Bills & Utilities'', 900, 1, 900 / 19), (''Dining'', 500, 2, 500 / 19),
        (''Other'', 500, 1, 500 / 19)]"
  by (simp add: analyzeCategorySpending_def mixed_spending_def example_txn_def
      mapPFCToFriendly_def friendly_table_def categorySpendingOf_def Let_def)

theorem category_spending_aggregation_witness:
  "hd (analyzeCategorySpending mixed_spending) \<in> set (analyzeCategorySpending mixed_spending)
   \<and> category (hd (analyzeCategorySpending mixed_spending)) = ''Bills & Utilities''
   \<and> total (hd (analyzeCategorySpending mixed_spending)) = 900
   \<and> count (hd (analyzeCategorySpending mixed_spending)) = 1
   \<and> length (transactions (hd (analyzeCategorySpending mixed_spending))) = 1
   \<and> map category (analyzeCategorySpending mixed_spending)
       = [''Bills & Utilities'', ''Dining'', ''Other'']
   \<and> map total (analyzeCategorySpending mixed_spending) = [900, 500, 500]
   \<and> distinct (map category (analyzeCategorySpending mixed_spending))"
proof -
  let ?res = "analyzeCategorySpending mixed_spending"
  have cats: "map category ?res = [''Bills & Utilities'', ''Dining'', ''Other'']"
    using arg_cong [OF mixed_categories, of "map fst"] by (simp add: comp_def)
  have tots: "map total ?res = [900, 500, 500]"
    using arg_cong [OF mixed_categories, of "map (\<lambda>x. fst (snd x))"] by (simp add: comp_def)
  have cnts: "map count ?res = [1, 2, 1]"
    using arg_cong [OF mixed_categories, of "map (\<lambda>x. fst (snd (snd x)))"] by (simp add: comp_def)
  from cats have ne: "?res \<noteq> []" by auto
  then have m: "hd ?res \<in> set ?res" by simp
  from ne cats have c: "category (hd ?res) = ''Bills & Utilities''"
    by (cases ?res) simp_all
  from ne tots have t: "total (hd ?res) = 900"
    by (cases ?res) simp_all
  from ne cnts have n: "count (hd ?res) = 1"
    by (cases ?res) simp_all
  note T = category_spending_aggregation [of mixed_spending]
  from T m have "count (hd ?res) = length (transactions (hd ?res))"
    by blast
  with n have l: "length (transactions (hd ?res)) = 1" by simp
  from T have d: "distinct (map category ?res)" by blast
  from m c t n l cats tots d show ?thesis by blast
qed

section \<open>Sanitizing\<close>

lemma sanitize_ignores_account_fields:
  "sanitizeForAI (t\<lparr>account_id := a, account_owner := b\<rparr>) = sanitizeForAI t"
  by (simp add: sanitizeForAI_def)

text \<open>
  Claim C5. The sanitized copy of a transaction is meant to hold only the date, the
  amount, the merchant text and the category, and nothing of the account. The account
  fields are indeed left out (\<open>sanitize_ignores_account_fields\<close>), but the copy also
  carries the transaction identifier: two transactions with the same date, amount,
  merchant and category and different identifiers have different sanitized copies.
\<close>

theorem sanitize_exposes_transaction_id:
  "sanitized_transaction_id
     (sanitizeForAI (example_txn ''txn-1'' 19723 15 ''Netflix'' ''ENTERTAINMENT'')) = ''txn-1''
   \<and> sanitizeForAI (example_txn ''txn-1'' 19723 15 ''Netflix'' ''ENTERTAINMENT'')
       \<noteq> sanitizeForAI (example_txn ''txn-2'' 19723 15 ''Netflix'' ''ENTERTAINMENT'')"
  by (simp add: sanitizeForAI_def example_txn_def)

section \<open>Subscription detection\<close>

lemma normalize_netflix:
  "normalizeMerchantName ''Netflix.com'' = ''netflixcom''"
  "normalizeMerchantName ''NETFLIX.COM'' = ''netflixcom''"
  by code_simp+

lemma netflix_not_blocked:
  "\<not> list_ex (\<lambda>nm. string_includes ''netflixcom'' nm) nonSubscriptionMerchants"
  by code_simp

lemma merchantGroups_two_charges:
  "merchantGroups (two_charges g) = [(''netflixcom'', two_charges g)]"
  by (simp add: merchantGroups_def two_charges_def example_txn_def normalize_netflix)

lemma sorted_two_charges:
  "0 < g \<Longrightarrow> sort_key (\<lambda>t. getTime (date t)) (two_charges g) = rev (two_charges g)"
  by (simp add: sort_key_getTime two_charges_def example_txn_def)

lemma entertainment_category:
  "\<not> isNonSubscriptionCategory (personal_finance_category (example_txn i d a n ''ENTERTAINMENT''))"
  "isSubscriptionCategory (personal_finance_category (example_txn i d a n ''ENTERTAINMENT''))"
  by (simp_all add: example_txn_def isNonSubscriptionCategory_def isSubscriptionCategory_def)

lemma statistics_two_equal:
  "calculateStatistics [15, 15] = \<lparr> mean = 15, stdDev = 0 \<rparr>"
  by (simp add: calculateStatistics_def)

lemma subscription_two_charges:
  assumes "0 < g" and "pattern_frequency (detectFrequencyPattern (rev (two_charges g))) = f"
    and "f \<noteq> irregular"
  shows "subscriptionOfGroup (''netflixcom'', two_charges g)
           = Some \<lparr> merchantName = ''netflixcom'', sub_amount = 15, frequency = f,
                    transactionIds = [''c1'', ''c2''], lastCharge = 19723 + g,
                    estimatedAnnualCost = calculateAnnualCost 15 f, driftScore = 0,
                    averageAmount = 15, standardDeviation = 0 \<rparr>"
proof -
  have len: "\<not> length (two_charges g) < 2" by (simp add: two_charges_def)
  have hd_rev: "hd (rev (two_charges g)) = example_txn ''c1'' 19723 15 ''NETFLIX.COM'' ''ENTERTAINMENT''"
    "last (rev (two_charges g)) = example_txn ''c2'' (19723 + g) 15 ''Netflix.com'' ''ENTERTAINMENT''"
    by (simp_all add: two_charges_def)
  have amts: "map amount (rev (two_charges g)) = [15, 15]"
    "map transaction_id (rev (two_charges g)) = [''c1'', ''c2'']"
    by (simp_all add: two_charges_def example_txn_def)
  have d: "date (example_txn ''c2'' (19723 + g) 15 ''Netflix.com'' ''ENTERTAINMENT'') = 19723 + g"
    by (simp add: example_txn_def)
  show ?thesis
    using assms(3)
    by (simp add: subscriptionOfGroup_def Let_def len sorted_two_charges [OF assms(1)] hd_rev
        entertainment_category netflix_not_blocked assms(2) amts statistics_two_equal d
        Math_round_def split del: if_split)
qed

lemma frequency_two_charges:
  "pattern_frequency (detectFrequencyPattern (rev (two_charges 7))) = weekly"
  "pattern_frequency (detectFrequencyPattern (rev (two_charges 30))) = monthly"
proof -
  have a: "0 \<le> g \<Longrightarrow> average_gap (rev (two_charges g)) = of_int g" for g
    by (simp add: average_gap_def two_charges_def example_txn_def)
  have l: "length (two_charges g) = 2" for g
    by (simp add: two_charges_def)
  show "pattern_frequency (detectFrequencyPattern (rev (two_charges 7))) = weekly"
    by (simp add: detectFrequencyPattern_bands l a)
  show "pattern_frequency (detectFrequencyPattern (rev (two_charges 30))) = monthly"
    by (simp add: detectFrequencyPattern_bands l a)
qed

text \<open>
  Claim C4. The detector is meant never to emit a pattern of frequency \<open>weekly\<close>. Two
  charges of the same amount to an entertainment merchant, seven days apart, give a
  pattern of frequency \<open>weekly\<close> with an annual cost of 52 times the mean amount.
\<close>

theorem weekly_subscription_emitted:
  "map frequency (detectSubscriptionDrift (two_charges 7)) = [weekly]
   \<and> map estimatedAnnualCost (detectSubscriptionDrift (two_charges 7)) = [780]
   \<and> map transactionIds (detectSubscriptionDrift (two_charges 7)) = [[''c1'', ''c2'']]"
proof -
  have ne: "length (two_charges 7) \<noteq> 0" by (simp add: two_charges_def)
  have "detectSubscriptionDrift (two_charges 7)
          = [\<lparr> merchantName = ''netflixcom'', sub_amount = 15, frequency = weekly,
                transactionIds = [''c1'', ''c2''], lastCharge = 19723 + 7,
                estimatedAnnualCost = calculateAnnualCost 15 weekly, driftScore = 0,
                averageAmount = 15, standardDeviation = 0 \<rparr>]"
    using ne
    by (simp add: detectSubscriptionDrift_def merchantGroups_two_charges List.map_filter_simps
        subscription_two_charges [OF _ frequency_two_charges(1)])
  then show ?thesis by simp
qed

lemma merchantGroups_groups:
  "merchantGroups txs
     = map (\<lambda>k. (k, filter (\<lambda>t. 0 < amount t \<and> normalizeMerchantName (name t) = k) txs))
         (first_seen (map (\<lambda>t. normalizeMerchantName (name t)) (filter (\<lambda>t. 0 < amount t) txs)))"
  using fold_map_push_groups [of "\<lambda>t. normalizeMerchantName (name t)" "filter (\<lambda>t. 0 < amount t) txs"]
  by (simp add: merchantGroups_def fold_if_filter)

lemma sum_list_pos_amounts:
  assumes "ts \<noteq> []" and "\<forall>t \<in> set ts. 0 < amount t"
  shows "0 < (\<Sum>t\<leftarrow>ts. amount t)"
proof (cases ts)
  case Nil
  with assms(1) show ?thesis by simp
next
  case (Cons t rest)
  have "0 \<le> (\<Sum>t\<leftarrow>rest. amount t)"
    using assms(2) Cons by (intro sum_list_nonneg) auto
  moreover have "0 < amount t" using assms(2) Cons by simp
  ultimately show ?thesis using Cons by simp
qed

lemma statistics_drift_score:
  assumes "ts \<noteq> []" and "\<forall>t \<in> set ts. 0 < amount t"
  shows "(let st = calculateStatistics (map amount (sort_key f ts))
          in if mean st > 0 then (stdDev st / mean st) * 100 else 0)
         = drift_score (map amount ts)"
proof -
  let ?n = "of_nat (length ts) :: real"
  let ?m = "(\<Sum>t\<leftarrow>ts. amount t) / ?n"
  have n: "0 < ?n" using assms(1) by simp
  have m: "0 < ?m" using sum_list_pos_amounts [OF assms] n by simp
  have sq: "(\<Sum>v\<leftarrow>map amount (sort_key f ts). (v - ?m)\<^sup>2) = (\<Sum>a\<leftarrow>map amount ts. (a - ?m)\<^sup>2)"
    using sum_list_map_sort_key [of "\<lambda>t. (amount t - ?m)\<^sup>2" f ts] by (simp add: comp_def)
  have st: "calculateStatistics (map amount (sort_key f ts))
              = \<lparr> mean = ?m, stdDev = sqrt ((\<Sum>a\<leftarrow>map amount ts. (a - ?m)\<^sup>2) / ?n) \<rparr>"
    using assms(1) sq
    by (simp add: calculateStatistics_def Let_def foldl_add_sum_list [where f = "\<lambda>x. x", simplified]
        sum_list_map_sort_key comp_def)
  show ?thesis
    using m by (simp add: st drift_score_def Let_def)
qed

lemma rounded_drift_le:
  assumes "d \<le> 30"
  shows "of_int (Math_round (d * 100)) / 100 \<le> (30 :: real)"
proof -
  have "d * 100 + 1 / 2 < 3001" using assms by simp
  then have "Math_round (d * 100) \<le> 3000"
    unfolding Math_round_def by (simp add: floor_le_iff)
  then have "(of_int (Math_round (d * 100)) :: real) \<le> 3000"
    by linarith
  then show ?thesis by simp
qed

lemma subscriptionOfGroup_Some:
  assumes "subscriptionOfGroup (k, ts) = Some p"
  shows "2 \<le> length ts \<and> merchantName p = k
       \<and> transactionIds p = map transaction_id (sort_key date ts)
       \<and> (let st = calculateStatistics (map amount (sort_key date ts))
          in if mean st > 0 then (stdDev st / mean st) * 100 else 0) \<le> 30
       \<and> driftScore p
           = of_int (Math_round
               ((let st = calculateStatistics (map amount (sort_key date ts))
                 in if mean st > 0 then (stdDev st / mean st) * 100 else 0) * 100)) / 100"
proof -
  let ?d = "(let st = calculateStatistics (map amount (sort_key date ts))
          in if mean st > 0 then (stdDev st / mean st) * 100 else 0)"
  have eq: "subscriptionOfGroup (k, ts) =
     (if length ts < 2 then None
      else if isNonSubscriptionCategory (personal_finance_category (hd (sort_key date ts))) then None
      else if list_ex (\<lambda>nm. string_includes k nm) nonSubscriptionMerchants then None
      else if pattern_frequency (detectFrequencyPattern (sort_key date ts)) \<noteq> irregular
              \<and> (pattern_frequency (detectFrequencyPattern (sort_key date ts)) = monthly
                   \<or> pattern_frequency (detectFrequencyPattern (sort_key date ts)) = annual
                   \<or> recurring (hd (sort_key date ts)) = Some True
                   \<or> isSubscriptionCategory (personal_finance_category (hd (sort_key date ts))))
      then (if ?d > 30 then None
            else Some \<lparr> merchantName = k,
                        sub_amount = mean (calculateStatistics (map amount (sort_key date ts))),
                        frequency = pattern_frequency (detectFrequencyPattern (sort_key date ts)),
                        transactionIds = map transaction_id (sort_key date ts),
                        lastCharge = date (last (sort_key date ts)),
                        estimatedAnnualCost = calculateAnnualCost
                           (mean (calculateStatistics (map amount (sort_key date ts))))
                           (pattern_frequency (detectFrequencyPattern (sort_key date ts))),
                        driftScore = of_int (Math_round (?d * 100)) / 100,
                        averageAmount = mean (calculateStatistics (map amount (sort_key date ts))),
                        standardDeviation = stdDev (calculateStatistics (map amount (sort_key date ts))) \<rparr>)
      else None)"
    by (simp add: subscriptionOfGroup_def Let_def sort_key_getTime split del: if_split cong: if_cong)
  from assms have l: "\<not> length ts < 2"
    unfolding eq by (auto split: if_splits)
  from assms have d: "\<not> ?d > 30"
    unfolding eq by (simp split: if_splits)
  from assms have p: "p = \<lparr> merchantName = k,
                        sub_amount = mean (calculateStatistics (map amount (sort_key date ts))),
                        frequency = pattern_frequency (detectFrequencyPattern (sort_key date ts)),
                        transactionIds = map transaction_id (sort_key date ts),
                        lastCharge = date (last (sort_key date ts)),
                        estimatedAnnualCost = calculateAnnualCost
                           (mean (calculateStatistics (map amount (sort_key date ts))))
                           (pattern_frequency (detectFrequencyPattern (sort_key date ts))),
                        driftScore = of_int (Math_round (?d * 100)) / 100,
                        averageAmount = mean (calculateStatistics (map amount (sort_key date ts))),
                        standardDeviation = stdDev (calculateStatistics (map amount (sort_key date ts))) \<rparr>"
    unfolding eq by (simp split: if_splits)
  have "merchantName p = k" "transactionIds p = map transaction_id (sort_key date ts)"
    "driftScore p = of_int (Math_round (?d * 100)) / 100"
    by (simp_all add: p)
  with l d show ?thesis by simp
qed


text \<open>
  Claim C3. Every pattern that the detector returns is backed by the at least two
  transactions of positive amount whose normalized merchant name is the pattern's
  merchant; its transaction identifiers are theirs, in date order; the drift score of
  their amounts (standard deviation divided by mean, times 100, and 0 when the mean is 0)
  is at most 30, and so is the emitted drift score, which is that value rounded to two
  decimals.
\<close>

theorem subscriptions_two_members_low_drift:
  "\<forall>p \<in> set (detectSubscriptionDrift txs).
     (let members = filter (\<lambda>t. 0 < amount t
                                \<and> normalizeMerchantName (name t) = merchantName p) txs
      in 2 \<le> length members
       \<and> transactionIds p = map transaction_id (sort_key date members)
       \<and> 2 \<le> length (transactionIds p)
       \<and> drift_score (map amount members) \<le> 30
       \<and> driftScore p = of_int (Math_round (drift_score (map amount members) * 100)) / 100
       \<and> driftScore p \<le> 30)"
proof
  fix p assume "p \<in> set (detectSubscriptionDrift txs)"
  then have "p \<in> set (List.map_filter subscriptionOfGroup (merchantGroups txs))"
    by (simp add: detectSubscriptionDrift_def split: if_splits)
  then obtain e where e: "e \<in> set (merchantGroups txs)" and s: "subscriptionOfGroup e = Some p"
    by (auto simp: List.map_filter_def)
  from e obtain k where
    ek: "e = (k, filter (\<lambda>t. 0 < amount t \<and> normalizeMerchantName (name t) = k) txs)"
    by (auto simp: merchantGroups_groups)
  let ?ts = "filter (\<lambda>t. 0 < amount t \<and> normalizeMerchantName (name t) = k) txs"
  note f = subscriptionOfGroup_Some [OF s [unfolded ek]]
  from f have len: "2 \<le> length ?ts" and mn: "merchantName p = k"
    and ids: "transactionIds p = map transaction_id (sort_key date ?ts)"
    by blast+
  from len have ne: "?ts \<noteq> []" by auto
  have pos: "\<forall>t \<in> set ?ts. 0 < amount t" by simp
  note ds = statistics_drift_score [OF ne pos, of date]
  from f have d30: "drift_score (map amount ?ts) \<le> 30"
    unfolding ds by blast
  from f have dr: "driftScore p = of_int (Math_round (drift_score (map amount ?ts) * 100)) / 100"
    unfolding ds by blast
  have "driftScore p \<le> 30"
    unfolding dr by (rule rounded_drift_le [OF d30])
  with len ids d30 dr show
    "let members = filter (\<lambda>t. 0 < amount t
                                \<and> normalizeMerchantName (name t) = merchantName p) txs
      in 2 \<le> length members
       \<and> transactionIds p = map transaction_id (sort_key date members)
       \<and> 2 \<le> length (transactionIds p)
       \<and> drift_score (map amount members) \<le> 30
       \<and> driftScore p = of_int (Math_round (drift_score (map amount members) * 100)) / 100
       \<and> driftScore p \<le> 30"
    unfolding mn Let_def by simp
qed

lemma monthly_subscription:
  "detectSubscriptionDrift (two_charges 30)
     = [\<lparr> merchantName = ''netflixcom'', sub_amount = 15, frequency = monthly,
           transactionIds = [''c1'', ''c2''], lastCharge = 19723 + 30,
           estimatedAnnualCost = calculateAnnualCost 15 monthly, driftScore = 0,
           averageAmount = 15, standardDeviation = 0 \<rparr>]"
proof -
  have ne: "length (two_charges 30) \<noteq> 0" by (simp add: two_charges_def)
  show ?thesis
    using ne
    by (simp add: detectSubscriptionDrift_def merchantGroups_two_charges List.map_filter_simps
        subscription_two_charges [OF _ frequency_two_charges(2)])
qed

theorem subscriptions_two_members_low_drift_witness:
  "hd (detectSubscriptionDrift (two_charges 30)) \<in> set (detectSubscriptionDrift (two_charges 30))
   \<and> transactionIds (hd (detectSubscriptionDrift (two_charges 30))) = [''c1'', ''c2'']
   \<and> 2 \<le> length (transactionIds (hd (detectSubscriptionDrift (two_charges 30))))
   \<and> driftScore (hd (detectSubscriptionDrift (two_charges 30))) = 0
   \<and> driftScore (hd (detectSubscriptionDrift (two_charges 30))) \<le> 30"
proof -
  have m: "hd (detectSubscriptionDrift (two_charges 30)) \<in> set (detectSubscriptionDrift (two_charges 30))"
    by (simp add: monthly_subscription)
  have v: "transactionIds (hd (detectSubscriptionDrift (two_charges 30))) = [''c1'', ''c2'']"
    "driftScore (hd (detectSubscriptionDrift (two_charges 30))) = 0"
    by (simp_all add: monthly_subscription)
  from subscriptions_two_members_low_drift [of "two_charges 30"] m
  have "2 \<le> length (transactionIds (hd (detectSubscriptionDrift (two_charges 30))))
        \<and> driftScore (hd (detectSubscriptionDrift (two_charges 30))) \<le> 30"
    unfolding Let_def by blast
  with m v show ?thesis by blast
qed

section \<open>Determinism of the analysis\<close>

lemma analyzeFinances_insights:
  "insights (analyzeFinances now txs accts)
     = highSpendingInsight (analyzeCategorySpending txs)
       @ cashFlowInsight now (detectIncome txs)
           (totalIncome (detectIncome txs) - (\<Sum>t\<leftarrow>filter (\<lambda>t. 0 < amount t) txs. amount t))
       @ positiveInsight txs (detectIncome txs)"
  by (simp add: analyzeFinances_def generateInsights_def Let_def foldl_add_sum_list)

lemma analyzeFinances_other_fields:
  "analyzeFinances now1 txs accts1
     = (analyzeFinances now2 txs accts2)\<lparr>insights := insights (analyzeFinances now1 txs accts1)\<rparr>"
  by (simp add: analyzeFinances_def Let_def)

lemma cashFlowInsight_same_side:
  assumes "\<forall>p. lastPaycheck inc = Some p \<longrightarrow>
             (7 < (now1 - getTime (paycheck_date p)) / msPerDay)
               = (7 < (now2 - getTime (paycheck_date p)) / msPerDay)"
  shows "cashFlowInsight now1 inc bal = cashFlowInsight now2 inc bal"
  using assms by (simp add: cashFlowInsight_def Let_def split: option.splits)

text \<open>
  Claim C1, as amended. The result of the analysis is a function of the transaction list
  and of the reading of the clock, and of nothing else: the account list is ignored. Two
  calls on the same transactions agree on every field other than the list of insights,
  whatever the two clock readings are; and they agree on the insights too whenever the two
  readings are on the same side of seven days after the date of the reported paycheck
  (in particular when the readings are equal, or when there is no paycheck).
\<close>

theorem analyze_finances_clock_dependence:
  "analyzeFinances now1 txs accts1
     = (analyzeFinances now2 txs accts2)\<lparr>insights := insights (analyzeFinances now1 txs accts1)\<rparr>
   \<and> ((\<forall>p. lastPaycheck (detectIncome txs) = Some p \<longrightarrow>
           (7 < (now1 - getTime (paycheck_date p)) / msPerDay)
             = (7 < (now2 - getTime (paycheck_date p)) / msPerDay))
        \<longrightarrow> analyzeFinances now1 txs accts1 = analyzeFinances now2 txs accts2)"
proof (intro conjI impI)
  show "analyzeFinances now1 txs accts1
     = (analyzeFinances now2 txs accts2)\<lparr>insights := insights (analyzeFinances now1 txs accts1)\<rparr>"
    by (rule analyzeFinances_other_fields)
next
  assume "\<forall>p. lastPaycheck (detectIncome txs) = Some p \<longrightarrow>
           (7 < (now1 - getTime (paycheck_date p)) / msPerDay)
             = (7 < (now2 - getTime (paycheck_date p)) / msPerDay)"
  then have "insights (analyzeFinances now1 txs accts1) = insights (analyzeFinances now2 txs accts2)"
    by (simp add: analyzeFinances_insights cashFlowInsight_same_side [of _ now1 now2])
  then show "analyzeFinances now1 txs accts1 = analyzeFinances now2 txs accts2"
    using analyzeFinances_other_fields [of now1 txs accts1 now2 accts2] by simp
qed

lemma one_paycheck_income:
  "lastPaycheck (detectIncome one_paycheck)
     = Some \<lparr> paycheck_amount = 1000, paycheck_date = 19723 \<rparr>"
  "averageMonthly (detectIncome one_paycheck) = 1000"
  "totalIncome (detectIncome one_paycheck) = 1000"
  "(\<Sum>t\<leftarrow>filter (\<lambda>t. 0 < amount t) one_paycheck. amount t) = 900"
  by (simp_all add: detectIncome_def Let_def one_paycheck_def example_txn_def)

lemma one_paycheck_cash_flow:
  "cashFlowInsight (getTime 19724) (detectIncome one_paycheck) 100 = []"
  "cashFlowInsight (getTime 19725) (detectIncome one_paycheck) 100 = []"
  "length (cashFlowInsight (getTime 19733) (detectIncome one_paycheck) 100) = 1"
  by (simp_all add: cashFlowInsight_def one_paycheck_income Let_def getTime_diff_days)

text \<open>
  The claim as stated fails: the same transaction list, analysed one day and ten days
  after its only paycheck, gives two different results.
\<close>

theorem analyze_finances_clock_counterexample:
  "analyzeFinances (getTime 19724) one_paycheck [] \<noteq> analyzeFinances (getTime 19733) one_paycheck []"
proof
  assume "analyzeFinances (getTime 19724) one_paycheck [] = analyzeFinances (getTime 19733) one_paycheck []"
  then have "insights (analyzeFinances (getTime 19724) one_paycheck [])
               = insights (analyzeFinances (getTime 19733) one_paycheck [])"
    by simp
  then have "cashFlowInsight (getTime 19724) (detectIncome one_paycheck) 100
               = cashFlowInsight (getTime 19733) (detectIncome one_paycheck) 100"
    by (simp add: analyzeFinances_insights one_paycheck_income)
  then have "length ([] :: SpendingInsight list) = 1"
    using one_paycheck_cash_flow by simp
  then show False by simp
qed

theorem analyze_finances_clock_dependence_witness:
  "lastPaycheck (detectIncome one_paycheck)
     = Some \<lparr> paycheck_amount = 1000, paycheck_date = 19723 \<rparr>
   \<and> \<not> 7 < (getTime 19724 - getTime 19723) / msPerDay
   \<and> \<not> 7 < (getTime 19725 - getTime 19723) / msPerDay
   \<and> analyzeFinances (getTime 19724) one_paycheck []
       = analyzeFinances (getTime 19725) one_paycheck []"
proof -
  have d: "\<not> 7 < (getTime 19724 - getTime 19723) / msPerDay"
    "\<not> 7 < (getTime 19725 - getTime 19723) / msPerDay"
    by (simp_all add: getTime_diff_days)
  have h: "\<forall>p. lastPaycheck (detectIncome one_paycheck) = Some p \<longrightarrow>
           (7 < (getTime 19724 - getTime (paycheck_date p)) / msPerDay)
             = (7 < (getTime 19725 - getTime (paycheck_date p)) / msPerDay)"
    by (simp add: one_paycheck_income getTime_diff_days)
  with analyze_finances_clock_dependence [of "getTime 19724" one_paycheck "[]" "getTime 19725" "[]"]
  have "analyzeFinances (getTime 19724) one_paycheck []
          = analyzeFinances (getTime 19725) one_paycheck []"
    by blast
  with d one_paycheck_income(1) show ?thesis by blast
qed

section \<open>Income and spending totals\<close>

lemma analyzeFinances_spending_total:
  "spending_total (spending (analyzeFinances now txs accts))
     = (\<Sum>t\<leftarrow>filter (\<lambda>t. 0 < amount t) txs. amount t)"
  by (simp add: analyzeFinances_def Let_def foldl_add_sum_list)

lemma sign_partition_sum:
  "(\<Sum>t\<leftarrow>filter (\<lambda>t. amount t < 0) txs. \<bar>amount t\<bar>)
     + (\<Sum>t\<leftarrow>filter (\<lambda>t. 0 < amount t) txs. amount t)
   = (\<Sum>t\<leftarrow>txs. \<bar>amount t\<bar>)"
  by (induction txs) auto

lemma sign_partition_signed_sum:
  "(\<Sum>t\<leftarrow>filter (\<lambda>t. 0 < amount t) txs. amount t)
     - (\<Sum>t\<leftarrow>filter (\<lambda>t. amount t < 0) txs. \<bar>amount t\<bar>)
   = (\<Sum>t\<leftarrow>txs. amount t)"
  by (induction txs) auto

text \<open>
  Claim C6. The total income is the sum of the absolute values of exactly the
  transactions of strictly negative amount, the spending total (also the sum of the
  category totals) is the sum of exactly the transactions of strictly positive amount.
  Together they count every transaction once, at its absolute value: a transaction
  adds to the income total only if its amount is negative, to the spending total only if
  its amount is positive, and a transaction of amount zero adds to neither.
\<close>

theorem income_spending_partition:
  "totalIncome (detectIncome txs) = (\<Sum>t\<leftarrow>filter (\<lambda>t. amount t < 0) txs. \<bar>amount t\<bar>)
   \<and> spending_total (spending (analyzeFinances now txs accts))
       = (\<Sum>t\<leftarrow>filter (\<lambda>t. 0 < amount t) txs. amount t)
   \<and> (\<Sum>c\<leftarrow>analyzeCategorySpending txs. total c)
       = spending_total (spending (analyzeFinances now txs accts))
   \<and> income (analyzeFinances now txs accts) = detectIncome txs
   \<and> totalIncome (detectIncome txs) + spending_total (spending (analyzeFinances now txs accts))
       = (\<Sum>t\<leftarrow>txs. \<bar>amount t\<bar>)
   \<and> spending_total (spending (analyzeFinances now txs accts)) - totalIncome (detectIncome txs)
       = (\<Sum>t\<leftarrow>txs. amount t)
   \<and> totalIncome (detectIncome (xs @ t # ys))
       = totalIncome (detectIncome (xs @ ys)) + (if amount t < 0 then \<bar>amount t\<bar> else 0)
   \<and> spending_total (spending (analyzeFinances now (xs @ t # ys) accts))
       = spending_total (spending (analyzeFinances now (xs @ ys) accts))
         + (if 0 < amount t then amount t else 0)"
proof -
  have "income (analyzeFinances now txs accts) = detectIncome txs"
    by (simp add: analyzeFinances_def Let_def)
  then show ?thesis
    using sign_partition_sum [of txs] sign_partition_signed_sum [of txs]
    by (simp add: detectIncome_totalIncome analyzeFinances_spending_total category_totals_sum)
qed

theorem income_spending_partition_witness:
  "totalIncome (detectIncome mixed_spending) = 1000
   \<and> spending_total (spending (analyzeFinances 0 mixed_spending [])) = 1900
   \<and> (\<Sum>c\<leftarrow>analyzeCategorySpending mixed_spending. total c) = 1900
   \<and> (\<Sum>t\<leftarrow>mixed_spending. \<bar>amount t\<bar>) = 2900"
proof -
  have a: "(\<Sum>t\<leftarrow>filter (\<lambda>t. amount t < 0) mixed_spending. \<bar>amount t\<bar>) = 1000"
    "(\<Sum>t\<leftarrow>filter (\<lambda>t. 0 < amount t) mixed_spending. amount t) = 1900"
    "(\<Sum>t\<leftarrow>mixed_spending. \<bar>amount t\<bar>) = 2900"
    by (simp_all add: mixed_spending_def example_txn_def)
  show ?thesis
    using income_spending_partition [of mixed_spending 0 "[]"]
    unfolding a by simp
qed

end
